theory Spec2Isabelle
  imports Complex_Main "HOL-Library.Sublist" "HOL-Library.Log_Nat"
begin

section \<open>Text primitives of the Python runtime\<close>

text \<open>
  A Python \<^verbatim>\<open>str\<close> is modelled as a \<^typ>\<open>string\<close>, one \<^typ>\<open>char\<close> per code point, so
  page text ranges over the code points 0 to 255 (Latin-1). The character classes below
  are those of the Unicode database on this range, as \<^verbatim>\<open>str.strip\<close>, \<^verbatim>\<open>str.isdigit\<close>,
  \<^verbatim>\<open>int\<close> and the patterns \<^verbatim>\<open>\d\<close>, \<^verbatim>\<open>\w\<close> and \<^verbatim>\<open>\b\<close> of \<^verbatim>\<open>re\<close> use them on \<^verbatim>\<open>str\<close>.
\<close>

text \<open>
  \<^verbatim>\<open>str.isspace\<close>: TAB to CR, FS to SPACE, NEL (U+0085) and NO-BREAK SPACE (U+00A0).
\<close>

definition is_space :: "char \<Rightarrow> bool" where
  "is_space c = (let n = (of_char c :: nat) in
     (9 \<le> n \<and> n \<le> 13) \<or> (28 \<le> n \<and> n \<le> 32) \<or> n = 133 \<or> n = 160)"

text \<open>\<^verbatim>\<open>\d\<close>: the decimal digits, on this range \<^verbatim>\<open>0\<close> to \<^verbatim>\<open>9\<close>.\<close>

definition is_digit :: "char \<Rightarrow> bool" where
  "is_digit c = (let n = (of_char c :: nat) in 48 \<le> n \<and> n \<le> 57)"

text \<open>
  \<^verbatim>\<open>\w\<close>: alphanumeric characters and the underscore. Beyond ASCII these are the
  letters U+00AA, U+00B5, U+00BA, U+00C0 to U+00D6, U+00D8 to U+00F6 and U+00F8 to
  U+00FF, the superscript digits U+00B2, U+00B3, U+00B9 and the fractions U+00BC to
  U+00BE.
\<close>

definition is_word :: "char \<Rightarrow> bool" where
  "is_word c = (let n = (of_char c :: nat) in
     (48 \<le> n \<and> n \<le> 57) \<or> (65 \<le> n \<and> n \<le> 90) \<or> (97 \<le> n \<and> n \<le> 122) \<or> n = 95
     \<or> n = 170 \<or> n = 178 \<or> n = 179 \<or> n = 181 \<or> n = 185 \<or> n = 186
     \<or> (188 \<le> n \<and> n \<le> 190) \<or> (192 \<le> n \<and> n \<le> 214) \<or> (216 \<le> n \<and> n \<le> 246)
     \<or> (248 \<le> n \<and> n \<le> 255))"

text \<open>\<^verbatim>\<open>s.strip()\<close>: leading and trailing whitespace removed.\<close>

definition strip :: "string \<Rightarrow> string" where
  "strip s = rev (dropWhile is_space (rev (dropWhile is_space s)))"

text \<open>\<^verbatim>\<open>needle in text\<close> on strings.\<close>

definition str_contains :: "string \<Rightarrow> string \<Rightarrow> bool" where
  "str_contains needle text = sublist needle text"

text \<open>A digit string: non-empty, and made of the digits \<^verbatim>\<open>0\<close> to \<^verbatim>\<open>9\<close> only.\<close>

definition isdigit :: "string \<Rightarrow> bool" where
  "isdigit s = (s \<noteq> [] \<and> list_all is_digit s)"

text \<open>
  \<^verbatim>\<open>s.isdigit()\<close>: non-empty, and every character a digit in the sense of
  \<^verbatim>\<open>str.isdigit\<close>, which beside \<^verbatim>\<open>0\<close> to \<^verbatim>\<open>9\<close> counts the superscripts U+00B2, U+00B3
  and U+00B9.
\<close>

definition str_isdigit :: "string \<Rightarrow> bool" where
  "str_isdigit s = (s \<noteq> [] \<and>
     list_all (\<lambda>c. is_digit c \<or> of_char c = (178 :: nat) \<or> of_char c = (179 :: nat)
                  \<or> of_char c = (185 :: nat)) s)"

definition digit_val :: "char \<Rightarrow> nat" where
  "digit_val c = of_char c - 48"

definition nat_of_digits :: "string \<Rightarrow> nat" where
  "nat_of_digits s = foldl (\<lambda>a c. 10 * a + digit_val c) 0 s"

text \<open>
  The digit part of an integer literal accepted by \<^verbatim>\<open>int(s)\<close>: digits, with single
  underscores allowed between two digits.
\<close>

fun digits_grouped :: "string \<Rightarrow> bool" where
  "digits_grouped [] = False"
| "digits_grouped [c] = is_digit c"
| "digits_grouped (c # d # cs) =
     (is_digit c \<and> (if d = CHR ''_'' then digits_grouped cs else digits_grouped (d # cs)))"

text \<open>
  The whitespace \<^verbatim>\<open>int(s)\<close> skips at both ends: the ASCII whitespace of C (TAB to CR and
  SPACE; not FS to US), and the whitespace beyond ASCII, which \<^verbatim>\<open>int\<close> turns into
  spaces before it parses.
\<close>

definition is_int_space :: "char \<Rightarrow> bool" where
  "is_int_space c = (let n = (of_char c :: nat) in
     (9 \<le> n \<and> n \<le> 13) \<or> n = 32 \<or> n = 133 \<or> n = 160)"

definition int_strip :: "string \<Rightarrow> string" where
  "int_strip s = rev (dropWhile is_int_space (rev (dropWhile is_int_space s)))"

text \<open>
  \<^verbatim>\<open>int(s)\<close> in base 10: surrounding whitespace is dropped, one sign is allowed, and
  \<open>None\<close> stands for the \<^verbatim>\<open>ValueError\<close> raised on anything else.
\<close>

definition py_int :: "string \<Rightarrow> int option" where
  "py_int s =
     (let t = int_strip s;
          neg = (t \<noteq> [] \<and> hd t = CHR ''-'');
          body = (if t \<noteq> [] \<and> (hd t = CHR ''-'' \<or> hd t = CHR ''+'') then tl t else t)
      in if digits_grouped body
         then Some ((if neg then - 1 else 1) * int (nat_of_digits (filter (\<lambda>c. c \<noteq> CHR ''_'') body)))
         else None)"

section \<open>Floating-point arithmetic of the Python runtime\<close>

text \<open>
  A Python \<^verbatim>\<open>float\<close> is an IEEE 754 binary64 number. A finite one is modelled by the
  real number it denotes; an operation gives the exact result rounded to the nearest
  double, ties to the even mantissa. \<open>binade a\<close> is the exponent \<open>E\<close> with
  \<open>2^E \<le> a < 2^(E+1)\<close> of a positive \<open>a\<close>; a double has 53 mantissa bits, and at least
  the exponent -1074 for its last bit (the subnormal range). Overflow to infinity is not
  modelled: with finite doubles as inputs, no operation of the functions below
  overflows.
\<close>

definition pow2 :: "int \<Rightarrow> real" where
  "pow2 e = (if 0 \<le> e then 2 ^ nat e else 1 / 2 ^ nat (- e))"

definition binade :: "real \<Rightarrow> int" where
  "binade a =
     (if 1 \<le> a then int (floorlog 2 (nat \<lfloor>a\<rfloor>)) - 1
      else (let b = int (floorlog 2 (nat \<lfloor>1 / a\<rfloor>))
            in if a = pow2 (1 - b) then 1 - b else - b))"

definition round_half_even :: "real \<Rightarrow> int" where
  "round_half_even q =
     (let f = \<lfloor>q\<rfloor>; d = q - of_int f
      in if d < 1 / 2 then f else if 1 / 2 < d then f + 1 else if even f then f else f + 1)"

definition round_double :: "real \<Rightarrow> real" where
  "round_double x =
     (if x = 0 then 0
      else (let e = max (binade \<bar>x\<bar> - 52) (- 1074);
                m = round_half_even (x / pow2 e)
            in of_int m * pow2 e))"

text \<open>\<^verbatim>\<open>x + y\<close> and \<^verbatim>\<open>x * y\<close> on floats, and a decimal literal such as \<^verbatim>\<open>0.4\<close>.\<close>

definition fadd :: "real \<Rightarrow> real \<Rightarrow> real" where
  "fadd x y = round_double (x + y)"

definition fmul :: "real \<Rightarrow> real \<Rightarrow> real" where
  "fmul x y = round_double (x * y)"

definition float_literal :: "real \<Rightarrow> real" where
  "float_literal q = round_double q"

section \<open>Candidate Validator (\<^verbatim>\<open>TspIdExtractor._is_valid_tsp_id_candidate\<close>)\<close>

definition min_tsp_id_length :: nat where
  "min_tsp_id_length = 6"

definition max_tsp_id_length :: nat where
  "max_tsp_id_length = 8"

text \<open>
  \<^verbatim>\<open>_is_likely_date\<close>: \<^verbatim>\<open>MMDDYY\<close> for six characters, \<^verbatim>\<open>YYYYMMDD\<close> for eight. A
  \<^verbatim>\<open>ValueError\<close> of \<^verbatim>\<open>int\<close> is caught by the bare \<^verbatim>\<open>except\<close> and gives \<open>False\<close>.
\<close>

definition is_likely_date :: "string \<Rightarrow> bool" where
  "is_likely_date number =
     (if length number = 6 then
        (case py_int (take 2 number) of None \<Rightarrow> False | Some month \<Rightarrow>
          (case py_int (take 2 (drop 2 number)) of None \<Rightarrow> False | Some day \<Rightarrow>
            (case py_int (drop 4 number) of None \<Rightarrow> False | Some year \<Rightarrow>
               1 \<le> month \<and> month \<le> 12 \<and> 1 \<le> day \<and> day \<le> 31 \<and> 0 \<le> year \<and> year \<le> 99)))
      else if length number = 8 then
        (case py_int (take 4 number) of None \<Rightarrow> False | Some year \<Rightarrow>
          (case py_int (take 2 (drop 4 number)) of None \<Rightarrow> False | Some month \<Rightarrow>
            (case py_int (drop 6 number) of None \<Rightarrow> False | Some day \<Rightarrow>
               1900 \<le> year \<and> year \<le> 2100 \<and> 1 \<le> month \<and> month \<le> 12 \<and> 1 \<le> day \<and> day \<le> 31)))
      else False)"

text \<open>\<^verbatim>\<open>_is_likely_zip_code\<close>: five- and nine-character zip codes.\<close>

definition is_likely_zip_code :: "string \<Rightarrow> bool" where
  "is_likely_zip_code number =
     (if length number = 5 then
        (case py_int number of None \<Rightarrow> False
         | Some zip_value \<Rightarrow> 501 \<le> zip_value \<and> zip_value \<le> 99950)
      else if length number = 9 then
        (case py_int number of None \<Rightarrow> False
         | Some zip_value \<Rightarrow> 50100000 \<le> zip_value \<and> zip_value \<le> 999509999)
      else False)"

text \<open>\<^verbatim>\<open>number.startswith(('1', '0'))\<close>.\<close>

definition starts_with_1_or_0 :: "string \<Rightarrow> bool" where
  "starts_with_1_or_0 number = (prefix ''1'' number \<or> prefix ''0'' number)"

text \<open>
  The validator, check by check in the order of the source. Every exception inside it is
  caught and answered with \<open>False\<close>; the only call that can raise is \<^verbatim>\<open>int(number)\<close>.
\<close>

definition is_valid_tsp_id_candidate :: "string \<Rightarrow> string \<Rightarrow> bool" where
  "is_valid_tsp_id_candidate number context_text =
     (if \<not> (min_tsp_id_length \<le> length number \<and> length number \<le> max_tsp_id_length) then False
      else case py_int number of None \<Rightarrow> False | Some v \<Rightarrow>
        if v < 100000 then False
        else if (length number = 10 \<or> length number = 11) \<and> starts_with_1_or_0 number then False
        else if is_likely_date number then False
        else if is_likely_zip_code number then False
        else if length (strip context_text) > 50 then False
        else True)"

text \<open>
  The validator with the phone-number check deleted and nothing else changed; it is the
  comparison partner of the refinement statement on the phone-number rule.
\<close>

definition is_valid_tsp_id_candidate_without_phone_rule :: "string \<Rightarrow> string \<Rightarrow> bool" where
  "is_valid_tsp_id_candidate_without_phone_rule number context_text =
     (if \<not> (min_tsp_id_length \<le> length number \<and> length number \<le> max_tsp_id_length) then False
      else case py_int number of None \<Rightarrow> False | Some v \<Rightarrow>
        if v < 100000 then False
        else if is_likely_date number then False
        else if is_likely_zip_code number then False
        else if length (strip context_text) > 50 then False
        else True)"

section \<open>Regular-expression harvest (\<^verbatim>\<open>re.findall\<close>)\<close>

text \<open>
  Both patterns of the source have the shape \<^verbatim>\<open>\b(\d{lo,hi})\b\<close>; \<^verbatim>\<open>\d+\<close> is the case
  \<open>lo = 1\<close> without upper bound. The matcher below works as the backtracking engine
  does: \<^verbatim>\<open>\b\<close> is tested between the previous and the next character, the digit
  group is greedy and gives digits back one at a time until the closing \<^verbatim>\<open>\b\<close> holds,
  a successful match is emitted and the scan resumes behind it, and a failed position
  moves the scan one character on.
\<close>

definition is_word_opt :: "char option \<Rightarrow> bool" where
  "is_word_opt p = (case p of None \<Rightarrow> False | Some c \<Rightarrow> is_word c)"

definition word_boundary :: "char option \<Rightarrow> char option \<Rightarrow> bool" where
  "word_boundary p n = (is_word_opt p \<noteq> is_word_opt n)"

definition nth_opt :: "string \<Rightarrow> nat \<Rightarrow> char option" where
  "nth_opt s i = (if i < length s then Some (s ! i) else None)"

definition digit_run :: "string \<Rightarrow> nat" where
  "digit_run s = length (takeWhile is_digit s)"

text \<open>
  \<open>backtrack s lo k\<close>: the group holds the first \<open>k\<close> characters of \<open>s\<close>, all digits;
  the closing \<^verbatim>\<open>\b\<close> is tried, and on failure one digit is given back, down to \<open>lo\<close>.
\<close>

fun backtrack :: "string \<Rightarrow> nat \<Rightarrow> nat \<Rightarrow> nat option" where
  "backtrack s lo 0 = None"
| "backtrack s lo (Suc k) =
     (if Suc k < lo then None
      else if word_boundary (Some (s ! k)) (nth_opt s (Suc k)) then Some (Suc k)
      else backtrack s lo k)"

definition match_at :: "nat \<Rightarrow> nat option \<Rightarrow> char option \<Rightarrow> string \<Rightarrow> nat option" where
  "match_at lo hi p s =
     (if word_boundary p (nth_opt s 0)
      then backtrack s lo (case hi of None \<Rightarrow> digit_run s | Some h \<Rightarrow> min h (digit_run s))
      else None)"

fun findall_from :: "nat \<Rightarrow> nat option \<Rightarrow> char option \<Rightarrow> string \<Rightarrow> string list" where
  "findall_from lo hi p [] = []"
| "findall_from lo hi p (c # cs) =
     (case match_at lo hi p (c # cs) of
        Some (Suc k) \<Rightarrow> (c # take k cs) # findall_from lo hi (Some ((c # cs) ! k)) (drop k cs)
      | _ \<Rightarrow> findall_from lo hi (Some c) cs)"

text \<open>\<^verbatim>\<open>re.findall(r'\b(\d{6,8})\b', text)\<close> and \<^verbatim>\<open>re.findall(r'\b(\d+)\b', text)\<close>.\<close>

definition findall_6_to_8_digits :: "string \<Rightarrow> string list" where
  "findall_6_to_8_digits text = findall_from 6 (Some 8) None text"

definition findall_digits :: "string \<Rightarrow> string list" where
  "findall_digits text = findall_from 1 None None text"

section \<open>Page layout supplied by the PDF collaborator\<close>

text \<open>
  \<^verbatim>\<open>page.get_text("dict")\<close>: blocks with a bounding box, text blocks with lines of
  spans. A bounding box is the list of its coordinates \<^verbatim>\<open>[x0, y0, x1, y1]\<close>; a list of
  another length is a malformed box. \<open>None\<close> in \<open>block_lines\<close> is a block without the
  key \<^verbatim>\<open>"lines"\<close> (an image block), \<open>None\<close> in \<open>blocks\<close> a dictionary without
  \<^verbatim>\<open>"blocks"\<close>.
\<close>

record span =
  span_text :: string
  span_bbox :: "real list"

record line =
  spans :: "span list"

record block =
  block_bbox :: "real list"
  block_lines :: "line list option"

record text_dict =
  blocks :: "block list option"

datatype py_error = IndexError

definition bbox_get :: "real list \<Rightarrow> nat \<Rightarrow> py_error + real" where
  "bbox_get b i = (if i < length b then Inr (b ! i) else Inl IndexError)"

text \<open>\<^verbatim>\<open>text_dict.get("blocks", [])\<close>.\<close>

definition get_blocks :: "text_dict \<Rightarrow> block list" where
  "get_blocks td = (case blocks td of None \<Rightarrow> [] | Some bs \<Rightarrow> bs)"

section \<open>Header-Boundary Locator (\<^verbatim>\<open>TspIdExtractor._find_summary_boundary\<close>)\<close>

definition exact_heading :: string where
  "exact_heading = ''Summary of VIDAPAY Charges and Payments''"

definition partial_heading :: string where
  "partial_heading = ''Summary of VIDAPAY''"

text \<open>\<^verbatim>\<open>(bbox[1], bbox[3])\<close> of a span.\<close>

definition span_y_range :: "span \<Rightarrow> py_error + (real \<times> real)" where
  "span_y_range s =
     (case bbox_get (span_bbox s) 1 of Inl e \<Rightarrow> Inl e | Inr y0 \<Rightarrow>
       (case bbox_get (span_bbox s) 3 of Inl e \<Rightarrow> Inl e | Inr y1 \<Rightarrow> Inr (y0, y1)))"

text \<open>
  The three nested loops. \<open>Inr (Some r)\<close> is a \<^verbatim>\<open>return r\<close> inside the loop,
  \<open>Inr None\<close> a loop that ran to its end, \<open>Inl e\<close> an exception.
\<close>

fun boundary_in_spans :: "span list \<Rightarrow> py_error + (real \<times> real) option" where
  "boundary_in_spans [] = Inr None"
| "boundary_in_spans (s # ss) =
     (let text = strip (span_text s) in
      if str_contains exact_heading text then
        (case span_y_range s of Inl e \<Rightarrow> Inl e | Inr r \<Rightarrow> Inr (Some r))
      else if str_contains partial_heading text then
        (case span_y_range s of Inl e \<Rightarrow> Inl e | Inr r \<Rightarrow> Inr (Some r))
      else boundary_in_spans ss)"

fun boundary_in_lines :: "line list \<Rightarrow> py_error + (real \<times> real) option" where
  "boundary_in_lines [] = Inr None"
| "boundary_in_lines (l # ls) =
     (case boundary_in_spans (spans l) of
        Inr None \<Rightarrow> boundary_in_lines ls
      | r \<Rightarrow> r)"

fun boundary_in_blocks :: "block list \<Rightarrow> py_error + (real \<times> real) option" where
  "boundary_in_blocks [] = Inr None"
| "boundary_in_blocks (b # bs) =
     (case block_lines b of
        None \<Rightarrow> boundary_in_blocks bs
      | Some ls \<Rightarrow>
          (case boundary_in_lines ls of
             Inr None \<Rightarrow> boundary_in_blocks bs
           | r \<Rightarrow> r))"

text \<open>The \<^verbatim>\<open>try\<close> around the loops answers every exception with \<^verbatim>\<open>None\<close>.\<close>

definition find_summary_boundary :: "text_dict \<Rightarrow> (real \<times> real) option" where
  "find_summary_boundary td =
     (case boundary_in_blocks (get_blocks td) of Inl e \<Rightarrow> None | Inr r \<Rightarrow> r)"

section \<open>Position Scorer (\<^verbatim>\<open>TspIdExtractor._calculate_position_score\<close>)\<close>

text \<open>
  \<^verbatim>\<open>x0, y0, x1, y1 = bbox\<close> raises unless the box has exactly four entries; the bare
  \<^verbatim>\<open>except\<close> then returns 0.5.
\<close>

definition calculate_position_score :: "real list \<Rightarrow> real" where
  "calculate_position_score bbox =
     (case bbox of
        [x0, y0, x1, y1] \<Rightarrow>
          (let normalized_x = x0 / 612;
               normalized_y = y0 / 792;
               x_score = 1 - normalized_x;
               y_score = 1 - normalized_y
           in (x_score + y_score) / 2)
      | _ \<Rightarrow> 0.5)"

section \<open>Candidate Harvester (\<^verbatim>\<open>TspIdExtractor._extract_tsp_id_candidates\<close>)\<close>

record candidate =
  cand_number :: string
  cand_text :: string
  cand_bbox :: "real list"
  position_score :: real

definition candidates_of_span :: "span \<Rightarrow> candidate list" where
  "candidates_of_span s =
     (let text = strip (span_text s) in
      map (\<lambda>n. \<lparr>cand_number = n, cand_text = text, cand_bbox = span_bbox s,
                position_score = calculate_position_score (span_bbox s)\<rparr>)
        (filter (\<lambda>n. is_valid_tsp_id_candidate n text) (findall_6_to_8_digits text)))"

definition candidates_of_block :: "block \<Rightarrow> candidate list" where
  "candidates_of_block b =
     (case block_lines b of
        None \<Rightarrow> []
      | Some ls \<Rightarrow> concat (map (\<lambda>l. concat (map candidates_of_span (spans l))) ls))"

definition extract_tsp_id_candidates :: "block list \<Rightarrow> candidate list" where
  "extract_tsp_id_candidates header_blocks = concat (map candidates_of_block header_blocks)"

section \<open>Candidate Selector (\<^verbatim>\<open>TspIdExtractor._select_best_candidate\<close>)\<close>

record scored_candidate =
  sc_number :: string
  sc_score :: real
  sc_position_score :: real

text \<open>
  The body of the scoring loop, for one candidate: the three \<^verbatim>\<open>score += ...\<close> steps in
  the order of the source, each a floating-point addition. A length other than 6, 7 or 8
  adds nothing.
\<close>

definition score_candidate :: "candidate \<Rightarrow> scored_candidate" where
  "score_candidate c =
     (let score = float_literal 0;
          score = fadd score (fmul (position_score c) (float_literal 0.4));
          n = length (cand_number c);
          score = (if n = 6 then fadd score (float_literal 0.3)
                   else if n = 7 then fadd score (float_literal 0.2)
                   else if n = 8 then fadd score (float_literal 0.1)
                   else score);
          context_text = cand_text c;
          score = (if length (strip context_text) \<le> 20 then fadd score (float_literal 0.3)
                   else if length (strip context_text) \<le> 30 then fadd score (float_literal 0.2)
                   else fadd score (float_literal 0.1))
      in \<lparr>sc_number = cand_number c, sc_score = score, sc_position_score = position_score c\<rparr>)"

text \<open>
  \<^verbatim>\<open>list.sort(key=..., reverse=True)\<close>: the list is reversed, sorted by a stable
  ascending sort and reversed again, so equal keys keep their order.
\<close>

definition py_sort_reverse :: "('a \<Rightarrow> 'k::linorder) \<Rightarrow> 'a list \<Rightarrow> 'a list" where
  "py_sort_reverse key xs = rev (sort_key key (rev xs))"

text \<open>
  An empty \<^verbatim>\<open>scored_candidates\<close> would raise at index 0; the handler then returns the
  first candidate.
\<close>

definition select_best_candidate :: "candidate list \<Rightarrow> string option" where
  "select_best_candidate candidates =
     (case candidates of
        [] \<Rightarrow> None
      | [c] \<Rightarrow> Some (cand_number c)
      | c # _ \<Rightarrow>
          (case py_sort_reverse sc_score (map score_candidate candidates) of
             [] \<Rightarrow> Some (cand_number c)
           | best_candidate # _ \<Rightarrow> Some (sc_number best_candidate)))"

section \<open>Header-Region Filter (\<^verbatim>\<open>TspIdExtractor._extract_from_header_section\<close>)\<close>

text \<open>The loop that collects the blocks above the boundary; \<^verbatim>\<open>block["bbox"][1]\<close> may raise.\<close>

fun collect_header_blocks :: "real \<Rightarrow> block list \<Rightarrow> py_error + block list" where
  "collect_header_blocks summary_y [] = Inr []"
| "collect_header_blocks summary_y (b # bs) =
     (case block_lines b of
        None \<Rightarrow> collect_header_blocks summary_y bs
      | Some ls \<Rightarrow>
          (case bbox_get (block_bbox b) 1 of
             Inl e \<Rightarrow> Inl e
           | Inr block_y \<Rightarrow>
               (case collect_header_blocks summary_y bs of
                  Inl e \<Rightarrow> Inl e
                | Inr hs \<Rightarrow> Inr (if block_y < summary_y then b # hs else hs))))"

text \<open>The blocks handed to the harvester: collected, then sorted by their top edge.\<close>

definition header_blocks_of :: "text_dict \<Rightarrow> real \<Rightarrow> py_error + block list" where
  "header_blocks_of td summary_y =
     (case collect_header_blocks summary_y (get_blocks td) of
        Inl e \<Rightarrow> Inl e
      | Inr hs \<Rightarrow> Inr (sort_key (\<lambda>x. block_bbox x ! 1) hs))"

text \<open>The candidates the extractor harvests for a boundary; none after an exception.\<close>

definition header_candidates :: "text_dict \<Rightarrow> real \<times> real \<Rightarrow> candidate list" where
  "header_candidates td summary_boundary =
     (case header_blocks_of td (fst summary_boundary) of
        Inl e \<Rightarrow> []
      | Inr header_blocks \<Rightarrow> extract_tsp_id_candidates header_blocks)"

definition extract_from_header_section :: "text_dict \<Rightarrow> real \<times> real \<Rightarrow> string option" where
  "extract_from_header_section td summary_boundary =
     (let summary_y = fst summary_boundary in
      case header_blocks_of td summary_y of
        Inl e \<Rightarrow> None
      | Inr header_blocks \<Rightarrow>
          (let candidates = extract_tsp_id_candidates header_blocks in
           if candidates = [] then None else select_best_candidate candidates))"

section \<open>Extraction results and the Confidence Calculator\<close>

text \<open>
  The result dictionary of the layout extractor: the success payload with its seven
  keys, or \<^verbatim>\<open>{"error": message}\<close>.
\<close>

record extraction_success =
  res_tspId :: string
  res_confidence :: real
  res_method :: string
  res_page :: nat
  res_description :: string
  res_extraction_method :: string
  res_accuracy :: string

datatype extraction_result = Success extraction_success | Failure string

text \<open>\<^verbatim>\<open>_calculate_confidence\<close>; nothing in its body can raise.\<close>

definition calculate_confidence :: "string \<Rightarrow> string \<Rightarrow> real" where
  "calculate_confidence tsp_id method_tag =
     (let base_confidence = 0.95;
          base_confidence =
            (if method_tag = ''position_based'' then 0.98
             else if method_tag = ''fallback'' then 0.85
             else base_confidence);
          n = length tsp_id;
          base_confidence =
            (if n = 6 then base_confidence + 0.01
             else if n = 7 then base_confidence + 0.005
             else if n = 8 then base_confidence + 0.002
             else base_confidence)
      in min 1 (max 0 base_confidence))"

section \<open>Fallback Extractor (\<^verbatim>\<open>TspIdExtractor._fallback_extraction\<close>)\<close>

definition spans_of_block :: "block \<Rightarrow> span list" where
  "spans_of_block b = (case block_lines b of None \<Rightarrow> [] | Some ls \<Rightarrow> concat (map spans ls))"

text \<open>All spans of the page in document order, as the nested loops visit them.\<close>

definition all_spans :: "text_dict \<Rightarrow> span list" where
  "all_spans td = concat (map spans_of_block (get_blocks td))"

text \<open>\<^verbatim>\<open>all_text += span["text"] + " "\<close> over all spans.\<close>

definition all_text_of :: "text_dict \<Rightarrow> string" where
  "all_text_of td = concat (map (\<lambda>s. span_text s @ '' '') (all_spans td))"

text \<open>The f-string \<^verbatim>\<open>f"TSP ID '{tsp_id}' {rest}"\<close>.\<close>

definition describe_tsp_id :: "string \<Rightarrow> string \<Rightarrow> string" where
  "describe_tsp_id tsp_id rest = ''TSP ID '' @ [CHR 0x27] @ tsp_id @ [CHR 0x27] @ '' '' @ rest"

definition fallback_extraction :: "text_dict \<Rightarrow> extraction_result" where
  "fallback_extraction td =
     (let all_text = all_text_of td;
          candidates = findall_6_to_8_digits all_text
      in if candidates \<noteq> [] then
           (let valid_candidates = filter (\<lambda>c. is_valid_tsp_id_candidate c []) candidates
            in if valid_candidates \<noteq> [] then
                 (let tsp_id = hd valid_candidates
                  in Success \<lparr>res_tspId = tsp_id,
                       res_confidence = 0.85,
                       res_method = ''fallback_extraction'',
                       res_page = 1,
                       res_description = describe_tsp_id tsp_id ''found using fallback method'',
                       res_extraction_method = ''PyMuPDF Fallback'',
                       res_accuracy = ''85%''\<rparr>)
               else Failure ''No TSP ID found using fallback method'')
         else Failure ''No TSP ID found using fallback method'')"

section \<open>Layout-Boundary Extractor (\<^verbatim>\<open>TspIdExtractor.extract_tsp_id_from_pdf\<close>)\<close>

text \<open>
  What the PDF library answers for one file. \<^verbatim>\<open>fitz.open\<close> either raises (\<open>Inl\<close>
  with the exception's message) or yields a document; the document has a page count,
  and reading its first page either raises or yields the layout dictionary, and for the
  flat-text interface the page text.
\<close>

record document =
  doc_page_count :: nat
  doc_page_layout :: "string + text_dict"
  doc_page_text :: "string + string"

text \<open>The document handle of one call: not yet acquired, held open, or released.\<close>

datatype handle = Not_Acquired | Held | Released

definition fitz_open :: "string + document \<Rightarrow> handle \<Rightarrow> (string + document) \<times> handle" where
  "fitz_open outcome h = (case outcome of Inl msg \<Rightarrow> (Inl msg, h) | Inr doc \<Rightarrow> (Inr doc, Held))"

definition doc_close :: "handle \<Rightarrow> handle" where
  "doc_close h = Released"

text \<open>
  The \<^verbatim>\<open>try\<close> block behind \<^verbatim>\<open>fitz.open\<close>: \<open>Inr\<close> is the returned dictionary, \<open>Inl\<close> an
  exception on its way to the handler. The helpers catch their own exceptions, so only
  the library can raise here.
\<close>

definition extract_from_document :: "document \<Rightarrow> string + extraction_result" where
  "extract_from_document doc =
     (if doc_page_count doc = 0 then Inr (Failure ''Empty PDF document'')
      else case doc_page_layout doc of
        Inl msg \<Rightarrow> Inl msg
      | Inr td \<Rightarrow>
          (case find_summary_boundary td of
             None \<Rightarrow> Inr (fallback_extraction td)
           | Some summary_boundary \<Rightarrow>
               (case extract_from_header_section td summary_boundary of
                  None \<Rightarrow> Inr (Failure ''No TSP ID found in header section'')
                | Some tsp_id \<Rightarrow>
                    if tsp_id \<noteq> [] then
                      Inr (Success \<lparr>res_tspId = tsp_id,
                        res_confidence = calculate_confidence tsp_id ''position_based'',
                        res_method = ''position_based_extraction'',
                        res_page = 1,
                        res_description = describe_tsp_id tsp_id
                           ''found in header section using position analysis'',
                        res_extraction_method = ''PyMuPDF Layout Analysis'',
                        res_accuracy = ''100%''\<rparr>)
                    else Inr (Failure ''No TSP ID found in header section''))))"

text \<open>
  The whole call: \<^verbatim>\<open>try\<close>, the handler that turns an exception into an error
  dictionary, and \<^verbatim>\<open>finally\<close>, which closes the document when the variable \<^verbatim>\<open>doc\<close>
  was bound. The result is paired with the state of the handle when the call returns.
\<close>

definition extract_tsp_id_from_pdf :: "string + document \<Rightarrow> extraction_result \<times> handle" where
  "extract_tsp_id_from_pdf outcome =
     (let (opened, h) = fitz_open outcome Not_Acquired;
          tried = (case opened of Inl msg \<Rightarrow> Inl msg | Inr doc \<Rightarrow> extract_from_document doc);
          result = (case tried of
                      Inl msg \<Rightarrow> Failure (''PDF processing error: '' @ msg)
                    | Inr r \<Rightarrow> r);
          h = (if h \<noteq> Not_Acquired then doc_close h else h)
      in (result, h))"

section \<open>First-Match Heuristic Extractor (\<^verbatim>\<open>pdf_processor_pypdf2\<close>)\<close>

text \<open>The loop of \<^verbatim>\<open>extract_tsp_id_smart\<close> over the harvested numeric strings.\<close>

fun first_six_digit :: "string list \<Rightarrow> string option" where
  "first_six_digit [] = None"
| "first_six_digit (num # rest) =
     (if length num = 6 then
        (if str_isdigit num \<and> length num = 6 then Some num else first_six_digit rest)
      else first_six_digit rest)"

definition extract_tsp_id_smart :: "string \<Rightarrow> string option" where
  "extract_tsp_id_smart page_text = first_six_digit (findall_digits page_text)"

text \<open>The JSON envelope printed by \<^verbatim>\<open>main\<close>.\<close>

record smart_results =
  sr_tspId :: "string option"
  sr_confidence :: real
  sr_method :: string
  sr_description :: string
  sr_accuracy :: string
  sr_extractedText :: string
  sr_processingTime :: string
  sr_library :: string

record smart_output =
  out_success :: bool
  out_error :: "string option"
  out_results :: smart_results

definition error_output :: "string \<Rightarrow> string \<Rightarrow> smart_output" where
  "error_output msg description =
     \<lparr>out_success = False, out_error = Some msg,
      out_results = \<lparr>sr_tspId = None, sr_confidence = 0, sr_method = ''error'',
        sr_description = description, sr_accuracy = ''0%'', sr_extractedText = [],
        sr_processingTime = ''error'', sr_library = ''PyMuPDF''\<rparr>\<rparr>"

definition not_found_output :: smart_output where
  "not_found_output =
     \<lparr>out_success = False, out_error = Some ''No TSP ID found with smart logic'',
      out_results = \<lparr>sr_tspId = None, sr_confidence = 0,
        sr_method = ''smart_extraction_pymupdf'',
        sr_description = ''Smart logic: No 6-digit number found'',
        sr_accuracy = ''0%'', sr_extractedText = [],
        sr_processingTime = ''fast'', sr_library = ''PyMuPDF''\<rparr>\<rparr>"

definition found_output :: "string \<Rightarrow> smart_output" where
  "found_output tsp_id =
     \<lparr>out_success = True, out_error = None,
      out_results = \<lparr>sr_tspId = Some tsp_id, sr_confidence = 1,
        sr_method = ''smart_extraction_pymupdf'',
        sr_description = ''Smart logic: First 6-digit number (TSP ID criteria)'',
        sr_accuracy = ''100%'',
        sr_extractedText = ''TSP ID: '' @ tsp_id @ '' (Smart extraction with PyMuPDF)'',
        sr_processingTime = ''fast'', sr_library = ''PyMuPDF''\<rparr>\<rparr>"

text \<open>
  The environment of one run of \<^verbatim>\<open>main\<close>: the length of \<^verbatim>\<open>sys.argv\<close>, the path,
  whether the file exists, the message of a failed \<^verbatim>\<open>import fitz\<close> if it fails, and
  what the library answers for the file.
\<close>

record cli_env =
  argv_len :: nat
  pdf_path :: string
  path_exists :: bool
  import_error :: "string option"
  fitz_outcome :: "string + document"

text \<open>
  The \<^verbatim>\<open>try\<close> block that processes the PDF (from \<^verbatim>\<open>fitz.open\<close> on), with its handler.
  The only \<^verbatim>\<open>doc.close()\<close> stands behind \<^verbatim>\<open>get_text()\<close> in the branch of a document
  with pages.
\<close>

definition process_pdf :: "string + document \<Rightarrow> smart_output \<times> handle" where
  "process_pdf outcome =
     (let (opened, h) = fitz_open outcome Not_Acquired in
      case opened of
        Inl msg \<Rightarrow>
          (error_output (''PDF processing error: '' @ msg) (''PDF processing error: '' @ msg), h)
      | Inr doc \<Rightarrow>
          if doc_page_count doc = 0 then
            (error_output ''No pages found in PDF'' ''No pages found in PDF'', h)
          else
            (case doc_page_text doc of
               Inl msg \<Rightarrow>
                 (error_output (''PDF processing error: '' @ msg)
                    (''PDF processing error: '' @ msg), h)
             | Inr page_text \<Rightarrow>
                 (let h = doc_close h in
                  if page_text = [] then
                    (error_output ''No text content found in PDF''
                       ''No text content found in PDF'', h)
                  else
                    (case extract_tsp_id_smart page_text of
                       None \<Rightarrow> (not_found_output, h)
                     | Some tsp_id \<Rightarrow>
                         if tsp_id \<noteq> [] then (found_output tsp_id, h)
                         else (not_found_output, h)))))"

text \<open>\<^verbatim>\<open>main\<close> of the first-match extractor: the printed envelope and the handle.\<close>

definition smart_main :: "cli_env \<Rightarrow> smart_output \<times> handle" where
  "smart_main env =
     (if argv_len env \<noteq> 2 then
        (error_output ''Invalid arguments'' ''Invalid arguments provided'', Not_Acquired)
      else if \<not> path_exists env then
        (error_output (''File not found: '' @ pdf_path env)
           (''File not found: '' @ pdf_path env), Not_Acquired)
      else case import_error env of
        Some msg \<Rightarrow>
          (error_output (''PyMuPDF import failed: '' @ msg)
             (''PyMuPDF import failed: '' @ msg), Not_Acquired)
      | None \<Rightarrow> process_pdf (fitz_outcome env))"

section \<open>Example inputs\<close>

text \<open>
  Three harvested candidates at the same place of the page: an 8-digit number in a long
  line, and two 6-digit numbers in short lines, whose scores are equal.
\<close>

definition c1_low :: candidate where
  "c1_low = \<lparr>cand_number = ''12345678'', cand_text = ''Customer reference number 12345678'',
     cand_bbox = [306, 396, 400, 410], position_score = 0.5\<rparr>"

definition c1_tie_a :: candidate where
  "c1_tie_a = \<lparr>cand_number = ''164082'', cand_text = ''TSP 164082'',
     cand_bbox = [306, 396, 400, 410], position_score = 0.5\<rparr>"

definition c1_tie_b :: candidate where
  "c1_tie_b = \<lparr>cand_number = ''264082'', cand_text = ''TSP 264082'',
     cand_bbox = [306, 396, 400, 410], position_score = 0.5\<rparr>"

text \<open>
  Two candidates at the same place whose bonuses add up to the same number: a 6-digit
  number in a line of 34 characters, and an 8-digit number in a short line.
\<close>

definition c1_long :: candidate where
  "c1_long = \<lparr>cand_number = ''164082'', cand_text = ''Customer account reference: 164082'',
     cand_bbox = [306, 396, 400, 410], position_score = 0.5\<rparr>"

definition c1_short :: candidate where
  "c1_short = \<lparr>cand_number = ''16408212'', cand_text = ''TSP 16408212'',
     cand_bbox = [306, 396, 400, 410], position_score = 0.5\<rparr>"

text \<open>
  The invoice of the end-to-end example: \<^verbatim>\<open>TSP 164082\<close> at the top of the page, the
  summary heading at \<open>y0 = 300\<close>, an account number below it.
\<close>

definition invoice_tsp_span :: span where
  "invoice_tsp_span = \<lparr>span_text = ''TSP 164082'', span_bbox = [50, 50, 120, 62]\<rparr>"

definition invoice_heading_span :: span where
  "invoice_heading_span =
     \<lparr>span_text = ''Summary of VIDAPAY Charges and Payments'', span_bbox = [50, 300, 400, 312]\<rparr>"

definition invoice_account_span :: span where
  "invoice_account_span = \<lparr>span_text = ''Account 279441663'', span_bbox = [50, 320, 300, 332]\<rparr>"

definition invoice_layout :: text_dict where
  "invoice_layout = \<lparr>blocks = Some
     [\<lparr>block_bbox = [50, 50, 200, 62], block_lines = Some [\<lparr>spans = [invoice_tsp_span]\<rparr>]\<rparr>,
      \<lparr>block_bbox = [50, 300, 400, 312], block_lines = Some [\<lparr>spans = [invoice_heading_span]\<rparr>]\<rparr>,
      \<lparr>block_bbox = [50, 320, 300, 332], block_lines = Some [\<lparr>spans = [invoice_account_span]\<rparr>]\<rparr>]\<rparr>"

definition invoice_candidate :: candidate where
  "invoice_candidate = \<lparr>cand_number = ''164082'', cand_text = ''TSP 164082'',
     cand_bbox = [50, 50, 120, 62], position_score = calculate_position_score [50, 50, 120, 62]\<rparr>"

text \<open>
  A page whose first span holds the short heading only, and a later span the full
  heading.
\<close>

definition c2_short_span :: span where
  "c2_short_span = \<lparr>span_text = ''Summary of VIDAPAY'', span_bbox = [50, 100, 300, 120]\<rparr>"

definition c2_full_span :: span where
  "c2_full_span =
     \<lparr>span_text = ''Summary of VIDAPAY Charges and Payments'', span_bbox = [50, 300, 500, 320]\<rparr>"

definition c2_layout :: text_dict where
  "c2_layout = \<lparr>blocks = Some
     [\<lparr>block_bbox = [50, 100, 500, 120], block_lines = Some [\<lparr>spans = [c2_short_span]\<rparr>]\<rparr>,
      \<lparr>block_bbox = [50, 300, 500, 320], block_lines = Some [\<lparr>spans = [c2_full_span]\<rparr>]\<rparr>]\<rparr>"

text \<open>
  A page with one text block that starts above the heading and holds the heading and a
  line below it.
\<close>

definition c3_layout :: text_dict where
  "c3_layout = \<lparr>blocks = Some
     [\<lparr>block_bbox = [50, 250, 500, 332], block_lines = Some
        [\<lparr>spans = [\<lparr>span_text = ''Invoice'', span_bbox = [50, 250, 120, 262]\<rparr>]\<rparr>,
         \<lparr>spans = [\<lparr>span_text = ''Summary of VIDAPAY Charges and Payments'',
                    span_bbox = [50, 300, 400, 312]\<rparr>]\<rparr>,
         \<lparr>spans = [\<lparr>span_text = ''Account 164082'', span_bbox = [50, 320, 200, 332]\<rparr>]\<rparr>]\<rparr>]\<rparr>"

text \<open>
  Documents: the invoice; a page without the heading; a file without pages; a file whose
  first page cannot be read; a page without blocks.
\<close>

definition invoice_document :: document where
  "invoice_document = \<lparr>doc_page_count = 1, doc_page_layout = Inr invoice_layout,
     doc_page_text = Inr ''TSP 164082''\<rparr>"

definition c5_layout :: text_dict where
  "c5_layout = \<lparr>blocks = Some
     [\<lparr>block_bbox = [50, 50, 200, 62], block_lines = Some [\<lparr>spans = [invoice_tsp_span]\<rparr>]\<rparr>]\<rparr>"

definition c5_document :: document where
  "c5_document = \<lparr>doc_page_count = 1, doc_page_layout = Inr c5_layout,
     doc_page_text = Inr ''TSP 164082''\<rparr>"

definition zero_page_document :: document where
  "zero_page_document = \<lparr>doc_page_count = 0, doc_page_layout = Inl ''page not in document'',
     doc_page_text = Inl ''page not in document''\<rparr>"

definition unreadable_document :: document where
  "unreadable_document = \<lparr>doc_page_count = 1, doc_page_layout = Inl ''cannot load page'',
     doc_page_text = Inl ''cannot load page''\<rparr>"

definition blank_document :: document where
  "blank_document = \<lparr>doc_page_count = 1, doc_page_layout = Inr \<lparr>blocks = Some []\<rparr>,
     doc_page_text = Inr []\<rparr>"

text \<open>
  Pages on which a helper step fails or finds nothing: the invoice with a heading span
  whose box has two entries only; a date as the only number, above the heading and on a
  page without heading; the invoice with a block whose box has one entry.
\<close>

definition c9_bad_heading_span :: span where
  "c9_bad_heading_span =
     \<lparr>span_text = ''Summary of VIDAPAY Charges and Payments'', span_bbox = [50, 300]\<rparr>"

definition c9_layout :: text_dict where
  "c9_layout = \<lparr>blocks = Some
     [\<lparr>block_bbox = [50, 50, 200, 62], block_lines = Some [\<lparr>spans = [invoice_tsp_span]\<rparr>]\<rparr>,
      \<lparr>block_bbox = [50, 300, 400, 312], block_lines = Some [\<lparr>spans = [c9_bad_heading_span]\<rparr>]\<rparr>]\<rparr>"

definition c9_document :: document where
  "c9_document = \<lparr>doc_page_count = 1, doc_page_layout = Inr c9_layout,
     doc_page_text = Inr ''TSP 164082''\<rparr>"

definition dated_span :: span where
  "dated_span = \<lparr>span_text = ''Date 020125'', span_bbox = [50, 50, 120, 62]\<rparr>"

definition dated_header_layout :: text_dict where
  "dated_header_layout = \<lparr>blocks = Some
     [\<lparr>block_bbox = [50, 50, 200, 62], block_lines = Some [\<lparr>spans = [dated_span]\<rparr>]\<rparr>,
      \<lparr>block_bbox = [50, 300, 400, 312], block_lines = Some [\<lparr>spans = [invoice_heading_span]\<rparr>]\<rparr>]\<rparr>"

definition dated_header_document :: document where
  "dated_header_document = \<lparr>doc_page_count = 1, doc_page_layout = Inr dated_header_layout,
     doc_page_text = Inr ''Date 020125''\<rparr>"

definition dated_layout :: text_dict where
  "dated_layout = \<lparr>blocks = Some
     [\<lparr>block_bbox = [50, 50, 200, 62], block_lines = Some [\<lparr>spans = [dated_span]\<rparr>]\<rparr>]\<rparr>"

definition dated_document :: document where
  "dated_document = \<lparr>doc_page_count = 1, doc_page_layout = Inr dated_layout,
     doc_page_text = Inr ''Date 020125''\<rparr>"

definition bad_block_layout :: text_dict where
  "bad_block_layout = \<lparr>blocks = Some
     [\<lparr>block_bbox = [50], block_lines = Some [\<lparr>spans = [invoice_tsp_span]\<rparr>]\<rparr>,
      \<lparr>block_bbox = [50, 300, 400, 312], block_lines = Some [\<lparr>spans = [invoice_heading_span]\<rparr>]\<rparr>]\<rparr>"

definition bad_block_document :: document where
  "bad_block_document = \<lparr>doc_page_count = 1, doc_page_layout = Inr bad_block_layout,
     doc_page_text = Inr ''TSP 164082''\<rparr>"

text \<open>Runs of the first-match \<^verbatim>\<open>main\<close> on an existing file, with the library importable.\<close>

definition zero_page_env :: cli_env where
  "zero_page_env = \<lparr>argv_len = 2, pdf_path = ''empty.pdf'', path_exists = True,
     import_error = None, fitz_outcome = Inr zero_page_document\<rparr>"

definition unreadable_env :: cli_env where
  "unreadable_env = \<lparr>argv_len = 2, pdf_path = ''broken.pdf'', path_exists = True,
     import_error = None, fitz_outcome = Inr unreadable_document\<rparr>"

section \<open>Notions used to state the properties\<close>

text \<open>
  The score in the words of the spec, as a number: 0.4 times the position score, plus
  the length bonus, plus the context bonus.
\<close>

definition exact_score :: "candidate \<Rightarrow> real" where
  "exact_score c =
     0.4 * position_score c
     + (if length (cand_number c) = 6 then 0.3 else if length (cand_number c) = 7 then 0.2
        else if length (cand_number c) = 8 then 0.1 else 0)
     + (if length (strip (cand_text c)) \<le> 20 then 0.3
        else if length (strip (cand_text c)) \<le> 30 then 0.2 else 0.1)"

text \<open>The first span of a list whose trimmed text contains a heading.\<close>

definition first_match :: "string \<Rightarrow> span list \<Rightarrow> span option" where
  "first_match heading ss = find (\<lambda>s. str_contains heading (strip (span_text s))) ss"

text \<open>The vertical range of a span, when its box has the entries.\<close>

definition y_range_opt :: "span \<Rightarrow> (real \<times> real) option" where
  "y_range_opt s = (case span_y_range s of Inl e \<Rightarrow> None | Inr r \<Rightarrow> Some r)"

text \<open>Absence of digits in a text.\<close>

definition no_digit :: "string \<Rightarrow> bool" where
  "no_digit s = list_all (\<lambda>c. \<not> is_digit c) s"

text \<open>
  The runs of a text: \<open>split_runs P s\<close> cuts \<open>s\<close> at every character that fails \<open>P\<close>,
  \<open>maximal_runs P s\<close> keeps the non-empty pieces, which are the maximal runs of
  characters with \<open>P\<close>, in order of appearance.
\<close>

fun split_runs :: "(char \<Rightarrow> bool) \<Rightarrow> string \<Rightarrow> string list" where
  "split_runs P [] = [[]]"
| "split_runs P (c # cs) =
     (if P c then (case split_runs P cs of r # rs \<Rightarrow> (c # r) # rs | [] \<Rightarrow> [[c]])
      else [] # split_runs P cs)"

definition maximal_runs :: "(char \<Rightarrow> bool) \<Rightarrow> string \<Rightarrow> string list" where
  "maximal_runs P s = filter (\<lambda>r. r \<noteq> []) (split_runs P s)"

text \<open>
  The harvest in the words of the spec for the first-match extractor: all maximal digit
  runs of the text.
\<close>

definition maximal_digit_runs :: "string \<Rightarrow> string list" where
  "maximal_digit_runs s = maximal_runs is_digit s"

text \<open>
  The digit runs that stand as whole words: the maximal runs of word characters
  (letters, digits, underscore) that consist of digits only.
\<close>

definition digit_words :: "string \<Rightarrow> string list" where
  "digit_words s = filter (list_all is_digit) (maximal_runs is_word s)"

text \<open>A length within the bounds of the quantifier \<^verbatim>\<open>{lo,hi}\<close>.\<close>

definition in_range :: "nat \<Rightarrow> nat option \<Rightarrow> string \<Rightarrow> bool" where
  "in_range lo hi t = (lo \<le> length t \<and> (case hi of None \<Rightarrow> True | Some h \<Rightarrow> length t \<le> h))"

section \<open>Facts on the text primitives\<close>

lemma is_digit_not_space: "is_digit c \<Longrightarrow> \<not> is_space c"
  by (auto simp: is_digit_def is_space_def Let_def)

lemma is_digit_not_underscore: "is_digit c \<Longrightarrow> c \<noteq> CHR ''_''"
  by (auto simp: is_digit_def)

lemma is_digit_not_sign: "is_digit c \<Longrightarrow> c \<noteq> CHR ''-'' \<and> c \<noteq> CHR ''+''"
  by (auto simp: is_digit_def)

lemma is_digit_not_int_space: "is_digit c \<Longrightarrow> \<not> is_int_space c"
  by (auto simp: is_digit_def is_int_space_def Let_def)

lemma int_strip_digits: "list_all is_digit s \<Longrightarrow> int_strip s = s"
proof (cases s rule: rev_cases)
  case Nil
  then show ?thesis by (simp add: int_strip_def)
next
  case (snoc ys y)
  assume d: "list_all is_digit s"
  from d snoc have y: "\<not> is_int_space y"
    by (simp add: is_digit_not_int_space)
  from d snoc have "s \<noteq> [] \<and> \<not> is_int_space (hd s)"
    by (cases ys) (simp_all add: is_digit_not_int_space)
  then have "dropWhile is_int_space s = s"
    by (cases s) simp_all
  with snoc y show ?thesis
    by (simp add: int_strip_def)
qed

lemma strip_digits: "list_all is_digit s \<Longrightarrow> strip s = s"
proof (cases s rule: rev_cases)
  case Nil
  then show ?thesis by (simp add: strip_def)
next
  case (snoc ys y)
  assume d: "list_all is_digit s"
  from d snoc have y: "\<not> is_space y"
    by (simp add: is_digit_not_space)
  from d snoc have "s \<noteq> [] \<and> \<not> is_space (hd s)"
    by (cases ys) (simp_all add: is_digit_not_space)
  then have "dropWhile is_space s = s"
    by (cases s) simp_all
  with snoc y show ?thesis
    by (simp add: strip_def)
qed

lemma digits_grouped_digits: "s \<noteq> [] \<Longrightarrow> list_all is_digit s \<Longrightarrow> digits_grouped s"
  by (induction s rule: digits_grouped.induct) (auto simp: is_digit_not_underscore)

lemma filter_underscore_digits: "list_all is_digit s \<Longrightarrow> filter (\<lambda>c. c \<noteq> CHR ''_'') s = s"
  by (induction s) (auto simp: is_digit_not_underscore)

lemma py_int_digits: "isdigit s \<Longrightarrow> py_int s = Some (int (nat_of_digits s))"
proof -
  assume a: "isdigit s"
  then have ne: "s \<noteq> []" and d: "list_all is_digit s"
    by (simp_all add: isdigit_def)
  from ne d have "is_digit (hd s)"
    by (cases s) simp_all
  then have sign: "hd s \<noteq> CHR ''-''" "hd s \<noteq> CHR ''+''"
    using is_digit_not_sign by blast+
  show ?thesis
    using ne d sign
    by (simp add: py_int_def int_strip_digits Let_def digits_grouped_digits filter_underscore_digits)
qed

section \<open>Properties of the Candidate Validator\<close>

text \<open>
  Claim C4. The validator rejects every digit string shorter than 6 or longer than 8
  characters, rejects every digit string whose numeric value is below 100000 whatever
  its length, and rejects the zip-code shapes: every 5-digit string with value in
  [501, 99950] and every 9-digit string with value in [50100000, 999509999].
\<close>

theorem validator_rejects_length_value_zip:
  assumes "isdigit number"
  shows "(length number < 6 \<or> 8 < length number
            \<longrightarrow> is_valid_tsp_id_candidate number context_text = False)
       \<and> (int (nat_of_digits number) < 100000
            \<longrightarrow> is_valid_tsp_id_candidate number context_text = False)
       \<and> (length number = 5 \<and> 501 \<le> nat_of_digits number \<and> nat_of_digits number \<le> 99950
            \<longrightarrow> is_valid_tsp_id_candidate number context_text = False)
       \<and> (length number = 9 \<and> 50100000 \<le> nat_of_digits number
              \<and> nat_of_digits number \<le> 999509999
            \<longrightarrow> is_valid_tsp_id_candidate number context_text = False)"
  using assms
  by (auto simp: is_valid_tsp_id_candidate_def min_tsp_id_length_def max_tsp_id_length_def
      py_int_digits)

theorem validator_rejects_length_value_zip_witness:
  "is_valid_tsp_id_candidate ''2077'' ''order 2077'' = False
   \<and> is_valid_tsp_id_candidate ''012345'' ''012345'' = False
   \<and> is_valid_tsp_id_candidate ''90210'' ''90210'' = False
   \<and> is_valid_tsp_id_candidate ''902101234'' ''902101234'' = False"
proof -
  have d: "isdigit ''2077''" "isdigit ''012345''" "isdigit ''90210''" "isdigit ''902101234''"
    by (simp_all add: isdigit_def is_digit_def)
  have v: "int (nat_of_digits ''012345'') < 100000"
    "501 \<le> nat_of_digits ''90210''" "nat_of_digits ''90210'' \<le> 99950"
    "50100000 \<le> nat_of_digits ''902101234''" "nat_of_digits ''902101234'' \<le> 999509999"
    by (simp_all add: nat_of_digits_def digit_val_def)
  show ?thesis
    using validator_rejects_length_value_zip [OF d(1), of "''order 2077''"]
      validator_rejects_length_value_zip [OF d(2), of "''012345''"]
      validator_rejects_length_value_zip [OF d(3), of "''90210''"]
      validator_rejects_length_value_zip [OF d(4), of "''902101234''"]
      v
    by simp
qed

text \<open>
  Claim C10. The phone-number rule never decides the outcome: on every number string and
  context text the validator answers as its variant without the phone-number check,
  since a string of 10 or 11 characters has already failed the 6-to-8 length rule.
\<close>

theorem phone_rule_is_redundant:
  "is_valid_tsp_id_candidate number context_text
     = is_valid_tsp_id_candidate_without_phone_rule number context_text"
  by (auto simp: is_valid_tsp_id_candidate_def is_valid_tsp_id_candidate_without_phone_rule_def
      min_tsp_id_length_def max_tsp_id_length_def split: option.splits)

theorem phone_rule_is_redundant_witness:
  "is_valid_tsp_id_candidate ''164082'' ''TSP 164082'' = True
   \<and> is_valid_tsp_id_candidate_without_phone_rule ''164082'' ''TSP 164082'' = True
   \<and> is_valid_tsp_id_candidate ''18005551234'' ''18005551234''
       = is_valid_tsp_id_candidate_without_phone_rule ''18005551234'' ''18005551234''"
proof -
  have "is_valid_tsp_id_candidate_without_phone_rule ''164082'' ''TSP 164082'' = True"
    by (simp add: is_valid_tsp_id_candidate_without_phone_rule_def min_tsp_id_length_def
        max_tsp_id_length_def py_int_def int_strip_def is_int_space_def strip_def is_space_def
        is_digit_def nat_of_digits_def digit_val_def is_likely_date_def is_likely_zip_code_def
        Let_def)
  then show ?thesis
    using phone_rule_is_redundant [of "''164082''" "''TSP 164082''"]
      phone_rule_is_redundant [of "''18005551234''" "''18005551234''"]
    by simp
qed

section \<open>Properties of the Candidate Selector\<close>

lemma last_sorted_max:
  assumes "sorted (map key ys)" "y \<in> set ys"
  shows "key y \<le> key (last ys)"
  using assms
  by (induction ys) (auto split: if_splits)

lemma last_filter_last:
  assumes "xs \<noteq> []" "P (last xs)"
  shows "last (filter P xs) = last xs"
  using assms
  by (induction xs) (auto simp: filter_empty_conv)

lemma hd_filter_index:
  assumes "filter P xs \<noteq> []"
  shows "\<exists>i<length xs. hd (filter P xs) = xs ! i \<and> P (xs ! i) \<and> (\<forall>j<i. \<not> P (xs ! j))"
  using assms
proof (induction xs)
  case Nil
  then show ?case by simp
next
  case (Cons x xs)
  show ?case
  proof (cases "P x")
    case True
    then show ?thesis by (intro exI [of _ 0]) simp
  next
    case False
    with Cons obtain i where i: "i < length xs" "hd (filter P xs) = xs ! i" "P (xs ! i)"
      "\<forall>j<i. \<not> P (xs ! j)"
      by auto
    show ?thesis
    proof (intro exI [of _ "Suc i"] conjI allI impI)
      fix j assume "j < Suc i"
      then show "\<not> P ((x # xs) ! j)"
        using False i(4) by (cases j) auto
    qed (use False i in auto)
  qed
qed

text \<open>
  The head of a list sorted with \<^verbatim>\<open>reverse=True\<close> is the earliest element of the
  original list whose key is maximal. The key may be of any linear order.
\<close>

lemma py_sort_reverse_hd:
  fixes key :: "'a \<Rightarrow> 'k::linorder"
  assumes "xs \<noteq> []"
  shows "\<exists>i<length xs. hd (py_sort_reverse key xs) = xs ! i
           \<and> (\<forall>j<length xs. key (xs ! j) \<le> key (xs ! i))
           \<and> (\<forall>j<i. key (xs ! j) < key (xs ! i))"
proof -
  define ys where "ys = sort_key key (rev xs)"
  define m where "m = key (last ys)"
  have ne: "ys \<noteq> []"
    using assms by (metis ys_def length_sort length_rev length_0_conv)
  have srt: "sorted (map key ys)"
    by (simp add: ys_def)
  have mx: "key y \<le> m" if "y \<in> set xs" for y
    using last_sorted_max [OF srt, of y] that by (simp add: m_def ys_def)
  have st: "filter (\<lambda>y. key y = m) ys = rev (filter (\<lambda>y. key y = m) xs)"
    by (simp add: ys_def sort_key_stable rev_filter)
  have "last (filter (\<lambda>y. key y = m) ys) = last ys"
    using ne by (simp add: last_filter_last m_def)
  then have hd_eq: "last ys = hd (filter (\<lambda>y. key y = m) xs)"
    using st ne by (metis (no_types, lifting) filter_empty_conv hd_rev last_in_set m_def rev_rev_ident)
  have fne: "filter (\<lambda>y. key y = m) xs \<noteq> []"
    using st ne by (metis (mono_tags, lifting) filter_empty_conv last_in_set m_def rev_is_Nil_conv)
  from hd_filter_index [OF fne] obtain i where i: "i < length xs"
    "hd (filter (\<lambda>y. key y = m) xs) = xs ! i" "key (xs ! i) = m" "\<forall>j<i. key (xs ! j) \<noteq> m"
    by auto
  have hd: "hd (py_sort_reverse key xs) = xs ! i"
    using ne hd_eq i(2) by (simp add: py_sort_reverse_def ys_def [symmetric] hd_rev)
  have a: "\<forall>j<length xs. key (xs ! j) \<le> key (xs ! i)"
    using mx i(3) by simp
  have b: "\<forall>j<i. key (xs ! j) < key (xs ! i)"
  proof (intro allI impI)
    fix j assume j: "j < i"
    then have "key (xs ! j) \<le> m" using mx i(1) by simp
    moreover have "key (xs ! j) \<noteq> m" using i(4) j by simp
    ultimately show "key (xs ! j) < key (xs ! i)" using i(3) by simp
  qed
  show ?thesis using i(1) hd a b by blast
qed

lemmas double_eval = round_double_def binade_def pow2_def round_half_even_def compute_floorlog
  fadd_def fmul_def float_literal_def Let_def

text \<open>The doubles nearest to the decimal literals of the scoring loop.\<close>

lemma float_literals:
  "float_literal 0 = 0"
  "float_literal 0.4 = 3602879701896397 / 2 ^ 53"
  "float_literal 0.3 = 5404319552844595 / 2 ^ 54"
  "float_literal 0.2 = 3602879701896397 / 2 ^ 54"
  "float_literal 0.1 = 3602879701896397 / 2 ^ 55"
  by (simp_all add: double_eval)

lemma c1_strip:
  "strip ''Customer account reference: 164082'' = ''Customer account reference: 164082''"
  "strip ''TSP 16408212'' = ''TSP 16408212''"
  "strip ''Customer reference number 12345678'' = ''Customer reference number 12345678''"
  "strip ''TSP 164082'' = ''TSP 164082''"
  "strip ''TSP 264082'' = ''TSP 264082''"
  by (simp_all add: strip_def is_space_def)

text \<open>
  The scores the loop computes: 0.6 and 0.6000000000000001 for the pair, 0.4 and twice
  0.8 for the triple.
\<close>

lemma c1_scores:
  "sc_score (score_candidate c1_long) = 5404319552844595 / 2 ^ 53"
  "sc_score (score_candidate c1_short) = 1351079888211149 / 2 ^ 51"
  "sc_score (score_candidate c1_low) = 3602879701896397 / 2 ^ 53"
  "sc_score (score_candidate c1_tie_a) = 3602879701896397 / 2 ^ 52"
  "sc_score (score_candidate c1_tie_b) = 3602879701896397 / 2 ^ 52"
  by (simp_all add: score_candidate_def c1_long_def c1_short_def c1_low_def c1_tie_a_def
      c1_tie_b_def c1_strip float_literals)
    (simp_all add: double_eval)

lemma score_candidate_number: "sc_number (score_candidate c) = cand_number c"
  by (simp add: score_candidate_def Let_def)

text \<open>
  Claim C1, as the spec states it, scores a candidate by the number 0.4 times position
  score plus length bonus plus context bonus, and breaks ties for the earliest
  candidate. For a 6-digit number in a 34-character line followed by an 8-digit number
  in a short line, both with position score 0.5, that number is 0.6 for both, a tie, and
  the claim names the first. The code adds doubles in the order of the source:
  (0.2 + 0.3) + 0.1 is 0.6 and (0.2 + 0.1) + 0.3 is 0.6000000000000001, and the second
  candidate is returned.
\<close>

theorem exact_tie_goes_to_later_candidate:
  "exact_score c1_long = 0.6 \<and> exact_score c1_short = 0.6
   \<and> sc_score (score_candidate c1_long) = 5404319552844595 / 2 ^ 53
   \<and> sc_score (score_candidate c1_short) = 5404319552844596 / 2 ^ 53
   \<and> select_best_candidate [c1_long, c1_short] = Some ''16408212''
   \<and> cand_number c1_long = ''164082''"
proof -
  have e: "exact_score c1_long = 0.6" "exact_score c1_short = 0.6"
    by (simp_all add: exact_score_def c1_long_def c1_short_def c1_strip)
  have s: "select_best_candidate [c1_long, c1_short] = Some ''16408212''"
    by (simp add: select_best_candidate_def py_sort_reverse_def c1_scores
        score_candidate_number)
      (simp add: c1_short_def)
  show ?thesis
    using e s by (simp add: c1_scores) (simp add: c1_long_def)
qed

text \<open>
  Claim C1, amended. A single candidate is returned as it is, without a score. Of several
  candidates each is scored in double-precision floating-point arithmetic, in this
  order: 0.0 plus position score times 0.4, then plus the length bonus (0.3 for 6
  digits, 0.2 for 7, 0.1 for 8), then plus the context bonus (0.3 for a trimmed text of
  at most 20 characters, 0.2 for at most 30, else 0.1); the number returned belongs to a
  candidate whose computed score is maximal, and to the earliest harvested among the
  candidates with that computed score.
\<close>

theorem select_best_candidate_spec:
  "select_best_candidate [c] = Some (cand_number c)
   \<and> (2 \<le> length cs \<longrightarrow>
        (\<exists>i<length cs. select_best_candidate cs = Some (cand_number (cs ! i))
           \<and> (\<forall>j<length cs. sc_score (score_candidate (cs ! j)) \<le> sc_score (score_candidate (cs ! i)))
           \<and> (\<forall>j<i. sc_score (score_candidate (cs ! j)) < sc_score (score_candidate (cs ! i)))))
   \<and> sc_score (score_candidate c) =
        (let weighted = fadd (float_literal 0) (fmul (position_score c) (float_literal 0.4));
             with_length =
               (if length (cand_number c) = 6 then fadd weighted (float_literal 0.3)
                else if length (cand_number c) = 7 then fadd weighted (float_literal 0.2)
                else if length (cand_number c) = 8 then fadd weighted (float_literal 0.1)
                else weighted)
         in if length (strip (cand_text c)) \<le> 20 then fadd with_length (float_literal 0.3)
            else if length (strip (cand_text c)) \<le> 30 then fadd with_length (float_literal 0.2)
            else fadd with_length (float_literal 0.1))"
proof (intro conjI impI)
  show "select_best_candidate [c] = Some (cand_number c)"
    by (simp add: select_best_candidate_def)
next
  assume len: "2 \<le> length cs"
  define scs where "scs = map score_candidate cs"
  have ne: "scs \<noteq> []" and l: "length scs = length cs"
    using len by (auto simp: scs_def)
  from py_sort_reverse_hd [OF ne, of sc_score] obtain i where i: "i < length scs"
    "hd (py_sort_reverse sc_score scs) = scs ! i"
    "\<forall>j<length scs. sc_score (scs ! j) \<le> sc_score (scs ! i)"
    "\<forall>j<i. sc_score (scs ! j) < sc_score (scs ! i)"
    by blast
  have sne: "py_sort_reverse sc_score scs \<noteq> []"
    using ne by (simp add: py_sort_reverse_def) (metis length_0_conv length_sort length_rev)
  obtain c0 c1 rest where cs: "cs = c0 # c1 # rest"
    using len by (cases cs; cases "tl cs") auto
  have "select_best_candidate cs = Some (sc_number (hd (py_sort_reverse sc_score scs)))"
    using sne by (simp add: select_best_candidate_def cs scs_def split: list.splits)
  also have "\<dots> = Some (cand_number (cs ! i))"
    using i(1,2) l by (simp add: scs_def score_candidate_number)
  finally have r: "select_best_candidate cs = Some (cand_number (cs ! i))" .
  have a: "\<forall>j<length cs. sc_score (score_candidate (cs ! j)) \<le> sc_score (score_candidate (cs ! i))"
    using i(1,3) l by (simp add: scs_def)
  have b: "\<forall>j<i. sc_score (score_candidate (cs ! j)) < sc_score (score_candidate (cs ! i))"
    using i(1,4) l by (simp add: scs_def)
  show "\<exists>i<length cs. select_best_candidate cs = Some (cand_number (cs ! i))
           \<and> (\<forall>j<length cs. sc_score (score_candidate (cs ! j)) \<le> sc_score (score_candidate (cs ! i)))
           \<and> (\<forall>j<i. sc_score (score_candidate (cs ! j)) < sc_score (score_candidate (cs ! i)))"
    using i(1) l r a b by auto
next
  show "sc_score (score_candidate c) =
        (let weighted = fadd (float_literal 0) (fmul (position_score c) (float_literal 0.4));
             with_length =
               (if length (cand_number c) = 6 then fadd weighted (float_literal 0.3)
                else if length (cand_number c) = 7 then fadd weighted (float_literal 0.2)
                else if length (cand_number c) = 8 then fadd weighted (float_literal 0.1)
                else weighted)
         in if length (strip (cand_text c)) \<le> 20 then fadd with_length (float_literal 0.3)
            else if length (strip (cand_text c)) \<le> 30 then fadd with_length (float_literal 0.2)
            else fadd with_length (float_literal 0.1))"
    by (simp add: score_candidate_def Let_def)
qed

theorem select_best_candidate_spec_witness:
  "select_best_candidate [c1_low] = Some ''12345678''
   \<and> 2 \<le> length [c1_low, c1_tie_a, c1_tie_b]
   \<and> select_best_candidate [c1_low, c1_tie_a, c1_tie_b] = Some ''164082''
   \<and> (\<exists>i<length [c1_low, c1_tie_a, c1_tie_b].
         select_best_candidate [c1_low, c1_tie_a, c1_tie_b]
           = Some (cand_number ([c1_low, c1_tie_a, c1_tie_b] ! i))
         \<and> (\<forall>j<length [c1_low, c1_tie_a, c1_tie_b].
               sc_score (score_candidate ([c1_low, c1_tie_a, c1_tie_b] ! j))
                 \<le> sc_score (score_candidate ([c1_low, c1_tie_a, c1_tie_b] ! i)))
         \<and> (\<forall>j<i. sc_score (score_candidate ([c1_low, c1_tie_a, c1_tie_b] ! j))
                    < sc_score (score_candidate ([c1_low, c1_tie_a, c1_tie_b] ! i))))"
proof -
  have one: "select_best_candidate [c1_low] = Some ''12345678''"
    using select_best_candidate_spec [of c1_low "[]"] by (simp add: c1_low_def)
  have len: "2 \<le> length [c1_low, c1_tie_a, c1_tie_b]"
    by simp
  have best: "select_best_candidate [c1_low, c1_tie_a, c1_tie_b] = Some ''164082''"
    by (simp add: select_best_candidate_def py_sort_reverse_def c1_scores
        score_candidate_number)
      (simp add: c1_tie_a_def)
  show ?thesis
    using one len best select_best_candidate_spec [of c1_low "[c1_low, c1_tie_a, c1_tie_b]"]
    by blast
qed

section \<open>Evaluation of the example pages\<close>

lemmas regex_eval = findall_6_to_8_digits_def findall_digits_def match_at_def word_boundary_def
  is_word_opt_def nth_opt_def is_word_def is_digit_def digit_run_def

lemmas validator_eval = is_valid_tsp_id_candidate_def min_tsp_id_length_def
  max_tsp_id_length_def py_int_def int_strip_def is_int_space_def strip_def is_space_def
  is_digit_def nat_of_digits_def
  digit_val_def is_likely_date_def is_likely_zip_code_def starts_with_1_or_0_def Let_def

lemma example_strip:
  "strip ''Invoice'' = ''Invoice''"
  "strip ''Summary of VIDAPAY'' = ''Summary of VIDAPAY''"
  "strip ''Summary of VIDAPAY Charges and Payments'' = ''Summary of VIDAPAY Charges and Payments''"
  "strip ''Account 164082'' = ''Account 164082''"
  "strip ''TSP 164082'' = ''TSP 164082''"
  "strip ''Account 279441663'' = ''Account 279441663''"
  by (simp_all add: strip_def is_space_def)

lemma example_findall:
  "findall_6_to_8_digits ''Invoice'' = []"
  "findall_6_to_8_digits ''Summary of VIDAPAY Charges and Payments'' = []"
  "findall_6_to_8_digits ''Account 164082'' = [''164082'']"
  "findall_6_to_8_digits ''TSP 164082'' = [''164082'']"
  "findall_6_to_8_digits ''Account 279441663'' = []"
  by (simp_all add: regex_eval)

lemma example_valid:
  "is_valid_tsp_id_candidate ''164082'' ''Account 164082''"
  "is_valid_tsp_id_candidate ''164082'' ''TSP 164082''"
  "is_valid_tsp_id_candidate ''164082'' []"
  by (simp_all add: validator_eval)

lemma example_contains:
  "\<not> str_contains partial_heading ''Invoice''"
  "\<not> str_contains exact_heading ''Invoice''"
  "\<not> str_contains exact_heading ''TSP 164082''"
  "str_contains partial_heading ''Summary of VIDAPAY Charges and Payments''"
  "\<not> str_contains partial_heading ''TSP 164082''"
  "\<not> str_contains exact_heading ''Summary of VIDAPAY''"
  "str_contains partial_heading ''Summary of VIDAPAY''"
  "str_contains exact_heading ''Summary of VIDAPAY Charges and Payments''"
  by (simp_all add: str_contains_def exact_heading_def partial_heading_def sublist_Cons_right)

section \<open>Properties of the Position Scorer\<close>




section \<open>Properties of the Header-Boundary Locator\<close>

lemma exact_imp_partial: "str_contains exact_heading t \<Longrightarrow> str_contains partial_heading t"
proof -
  assume a: "str_contains exact_heading t"
  have "prefix partial_heading exact_heading"
    by (simp add: partial_heading_def exact_heading_def)
  then have "sublist partial_heading exact_heading"
    by (rule prefix_imp_sublist)
  with a show ?thesis
    unfolding str_contains_def using sublist_order.order_trans by blast
qed

lemma find_append_case:
  "find P (xs @ ys) = (case find P xs of None \<Rightarrow> find P ys | Some x \<Rightarrow> Some x)"
  by (induction xs) auto

lemma boundary_in_spans_find:
  "boundary_in_spans ss =
     (case first_match partial_heading ss of
        None \<Rightarrow> Inr None
      | Some s \<Rightarrow> (case span_y_range s of Inl e \<Rightarrow> Inl e | Inr r \<Rightarrow> Inr (Some r)))"
  by (induction ss) (auto simp: first_match_def Let_def exact_imp_partial)

lemma boundary_in_lines_find:
  "boundary_in_lines ls =
     (case first_match partial_heading (concat (map spans ls)) of
        None \<Rightarrow> Inr None
      | Some s \<Rightarrow> (case span_y_range s of Inl e \<Rightarrow> Inl e | Inr r \<Rightarrow> Inr (Some r)))"
proof (induction ls)
  case Nil
  then show ?case by (simp add: first_match_def)
next
  case (Cons l ls)
  then show ?case
    by (auto simp: boundary_in_spans_find first_match_def find_append_case
        split: option.splits sum.splits)
qed

lemma boundary_in_blocks_find:
  "boundary_in_blocks bs =
     (case first_match partial_heading (concat (map spans_of_block bs)) of
        None \<Rightarrow> Inr None
      | Some s \<Rightarrow> (case span_y_range s of Inl e \<Rightarrow> Inl e | Inr r \<Rightarrow> Inr (Some r)))"
proof (induction bs)
  case Nil
  then show ?case by (simp add: first_match_def)
next
  case (Cons b bs)
  then show ?case
    by (auto simp: boundary_in_lines_find first_match_def find_append_case spans_of_block_def
        split: option.splits sum.splits)
qed

lemma find_summary_boundary_first_partial:
  "find_summary_boundary td =
     (case first_match partial_heading (all_spans td) of
        None \<Rightarrow> None
      | Some s \<Rightarrow> y_range_opt s)"
  by (auto simp: find_summary_boundary_def boundary_in_blocks_find all_spans_def y_range_opt_def
      split: option.splits sum.splits)

text \<open>
  Claim C2, as the spec states it, gives the full heading priority over the short one
  wherever they stand. On a page whose first span holds the short heading (at y 100 to
  120) and a later span the full heading (at y 300 to 320), the first span with the full
  heading is the later one, and the locator returns the range of the earlier one.
\<close>

theorem boundary_prefers_earlier_partial_match:
  "first_match exact_heading (all_spans c2_layout) = Some c2_full_span
   \<and> y_range_opt c2_full_span = Some (300, 320)
   \<and> find_summary_boundary c2_layout = Some (100, 120)
   \<and> find_summary_boundary c2_layout \<noteq> y_range_opt c2_full_span"
proof -
  have s: "all_spans c2_layout = [c2_short_span, c2_full_span]"
    by (simp add: all_spans_def c2_layout_def get_blocks_def spans_of_block_def)
  have e: "first_match exact_heading (all_spans c2_layout) = Some c2_full_span"
    by (simp add: s first_match_def c2_short_span_def c2_full_span_def example_strip
        example_contains)
  have p: "first_match partial_heading (all_spans c2_layout) = Some c2_short_span"
    by (simp add: s first_match_def c2_short_span_def example_strip example_contains)
  have y: "y_range_opt c2_full_span = Some (300, 320)" "y_range_opt c2_short_span = Some (100, 120)"
    by (simp_all add: y_range_opt_def span_y_range_def bbox_get_def c2_full_span_def
        c2_short_span_def)
  have b: "find_summary_boundary c2_layout = Some (100, 120)"
    by (simp add: find_summary_boundary_first_partial p y)
  show ?thesis
    using e y b by simp
qed

text \<open>
  Claim C2, amended. The locator makes one pass over the spans in document order and
  returns the vertical range of the first span whose trimmed text contains the short
  heading \<^verbatim>\<open>Summary of VIDAPAY\<close>, which every span with the full heading does. Hence,
  when some span contains the full heading and no earlier span contains the short one,
  the range returned is that of the first span with the full heading.
\<close>

theorem boundary_is_first_partial_match:
  "find_summary_boundary td =
     (case first_match partial_heading (all_spans td) of
        None \<Rightarrow> None
      | Some s \<Rightarrow> y_range_opt s)
   \<and> (first_match exact_heading (all_spans td) = Some s
        \<and> first_match partial_heading (all_spans td) = Some s
       \<longrightarrow> find_summary_boundary td = y_range_opt s)"
  by (simp add: find_summary_boundary_first_partial)

lemma invoice_all_spans:
  "all_spans invoice_layout = [invoice_tsp_span, invoice_heading_span, invoice_account_span]"
  by (simp add: all_spans_def invoice_layout_def get_blocks_def spans_of_block_def)

lemma invoice_first_match:
  "first_match exact_heading (all_spans invoice_layout) = Some invoice_heading_span"
  "first_match partial_heading (all_spans invoice_layout) = Some invoice_heading_span"
  by (simp_all add: invoice_all_spans first_match_def invoice_tsp_span_def
      invoice_heading_span_def example_strip example_contains)

lemma invoice_boundary: "find_summary_boundary invoice_layout = Some (300, 312)"
  by (simp add: find_summary_boundary_first_partial invoice_first_match y_range_opt_def
      span_y_range_def bbox_get_def invoice_heading_span_def)

theorem boundary_is_first_partial_match_witness:
  "first_match exact_heading (all_spans invoice_layout) = Some invoice_heading_span
   \<and> first_match partial_heading (all_spans invoice_layout) = Some invoice_heading_span
   \<and> find_summary_boundary invoice_layout = y_range_opt invoice_heading_span
   \<and> find_summary_boundary invoice_layout = Some (300, 312)"
  using boundary_is_first_partial_match [of invoice_layout invoice_heading_span]
    invoice_first_match invoice_boundary
  by simp

section \<open>Properties of the Header-Region Filter and the Harvester\<close>

lemma collect_header_blocks_set:
  "collect_header_blocks y bs = Inr hs \<Longrightarrow> b \<in> set hs \<Longrightarrow>
     b \<in> set bs \<and> block_lines b \<noteq> None \<and> 1 < length (block_bbox b) \<and> block_bbox b ! 1 < y"
proof (induction bs arbitrary: hs)
  case Nil
  then show ?case by simp
next
  case (Cons a bs)
  then show ?case
    by (auto simp: bbox_get_def split: option.splits sum.splits if_splits)
qed

lemma header_blocks_of_set:
  "header_blocks_of td y = Inr hs \<Longrightarrow> b \<in> set hs \<Longrightarrow>
     b \<in> set (get_blocks td) \<and> block_lines b \<noteq> None \<and> 1 < length (block_bbox b)
       \<and> block_bbox b ! 1 < y"
  using collect_header_blocks_set [of y "get_blocks td" _ b]
  by (auto simp: header_blocks_of_def split: sum.splits)

lemma candidates_of_span_origin:
  "c \<in> set (candidates_of_span s) \<Longrightarrow>
     cand_bbox c = span_bbox s \<and> cand_text c = strip (span_text s)"
  by (auto simp: candidates_of_span_def Let_def)

text \<open>The extractor selects among exactly the harvested candidates.\<close>

lemma extract_from_header_section_candidates:
  "extract_from_header_section td sb =
     (if header_candidates td sb = [] then None
      else select_best_candidate (header_candidates td sb))"
  by (simp add: extract_from_header_section_def header_candidates_def Let_def split: sum.splits)

lemma c3_harvest:
  "candidates_of_span \<lparr>span_text = ''Invoice'', span_bbox = [50, 250, 120, 262]\<rparr> = []"
  "candidates_of_span \<lparr>span_text = ''Summary of VIDAPAY Charges and Payments'',
                    span_bbox = [50, 300, 400, 312]\<rparr> = []"
  "map cand_number (candidates_of_span \<lparr>span_text = ''Account 164082'', span_bbox = [50, 320, 200, 332]\<rparr>)
     = [''164082'']"
  "map cand_bbox (candidates_of_span \<lparr>span_text = ''Account 164082'', span_bbox = [50, 320, 200, 332]\<rparr>)
     = [[50, 320, 200, 332]]"
  by (simp_all add: candidates_of_span_def example_strip example_findall example_valid)

lemma c3_boundary: "find_summary_boundary c3_layout = Some (300, 312)"
  by (simp add: c3_layout_def get_blocks_def find_summary_boundary_def span_y_range_def
        bbox_get_def example_strip example_contains Let_def)

lemma c3_header_candidates:
  "header_candidates c3_layout (300, 312) =
     candidates_of_span \<lparr>span_text = ''Account 164082'', span_bbox = [50, 320, 200, 332]\<rparr>"
  by (simp add: header_candidates_def header_blocks_of_def c3_layout_def get_blocks_def
      bbox_get_def extract_tsp_id_candidates_def candidates_of_block_def c3_harvest)

text \<open>
  Claim C3 asks every candidate to come from a span whose top edge lies above the top
  edge of the boundary, as the docstring of the function does ("above summary
  boundary"). The code filters blocks, not spans. On a page whose one text block starts
  at y 250 and holds the heading at y 300 and the line \<^verbatim>\<open>Account 164082\<close> at y 320,
  the block passes the filter, and the extractor harvests and returns 164082 from the
  span at y 320, below the boundary's top edge.
\<close>

theorem candidate_from_span_below_boundary:
  "find_summary_boundary c3_layout = Some (300, 312)
   \<and> map cand_number (header_candidates c3_layout (300, 312)) = [''164082'']
   \<and> map cand_bbox (header_candidates c3_layout (300, 312)) = [[50, 320, 200, 332]]
   \<and> extract_from_header_section c3_layout (300, 312) = Some ''164082''
   \<and> \<not> ([50, 320, 200, 332] ! 1 < fst (300 :: real, 312 :: real))"
proof -
  have n: "map cand_number (header_candidates c3_layout (300, 312)) = [''164082'']"
    by (simp add: c3_header_candidates c3_harvest)
  then obtain c where c: "header_candidates c3_layout (300, 312) = [c]" "cand_number c = ''164082''"
    by auto
  have e: "extract_from_header_section c3_layout (300, 312) = Some ''164082''"
    by (simp add: extract_from_header_section_candidates c select_best_candidate_def)
  show ?thesis
    using c3_boundary n e by (simp add: c3_header_candidates c3_harvest)
qed

text \<open>
  What the filter does ensure: every harvested candidate comes from a span of a text
  block whose own top edge lies strictly above the top edge of the boundary.
\<close>

lemma candidates_come_from_blocks_above_boundary:
  assumes "find_summary_boundary td = Some sb"
    and "c \<in> set (header_candidates td sb)"
  shows "\<exists>b\<in>set (get_blocks td). \<exists>ls. block_lines b = Some ls
           \<and> 1 < length (block_bbox b) \<and> block_bbox b ! 1 < fst sb
           \<and> (\<exists>l\<in>set ls. \<exists>s\<in>set (spans l).
                 cand_bbox c = span_bbox s \<and> cand_text c = strip (span_text s))"
proof -
  from assms(2) obtain hs where hs: "header_blocks_of td (fst sb) = Inr hs"
    and c: "c \<in> set (extract_tsp_id_candidates hs)"
    by (cases "header_blocks_of td (fst sb)") (auto simp: header_candidates_def)
  from c obtain b where b: "b \<in> set hs" "c \<in> set (candidates_of_block b)"
    by (auto simp: extract_tsp_id_candidates_def)
  from b(2) obtain ls l s where ls: "block_lines b = Some ls" "l \<in> set ls" "s \<in> set (spans l)"
    "c \<in> set (candidates_of_span s)"
    by (cases "block_lines b") (auto simp: candidates_of_block_def)
  from header_blocks_of_set [OF hs b(1)] ls candidates_of_span_origin [OF ls(4)]
  show ?thesis by blast
qed

lemma invoice_harvest:
  "candidates_of_span invoice_tsp_span = [invoice_candidate]"
  by (simp add: candidates_of_span_def invoice_tsp_span_def invoice_candidate_def
      example_strip example_findall example_valid)

lemma invoice_header_candidates:
  "header_candidates invoice_layout (300, 312) = [invoice_candidate]"
  by (simp add: header_candidates_def header_blocks_of_def invoice_layout_def get_blocks_def
      bbox_get_def extract_tsp_id_candidates_def candidates_of_block_def invoice_harvest)

lemma candidates_come_from_blocks_above_boundary_example:
  "find_summary_boundary invoice_layout = Some (300, 312)
   \<and> invoice_candidate \<in> set (header_candidates invoice_layout (300, 312))
   \<and> (\<exists>b\<in>set (get_blocks invoice_layout). \<exists>ls. block_lines b = Some ls
         \<and> 1 < length (block_bbox b) \<and> block_bbox b ! 1 < fst (300 :: real, 312 :: real)
         \<and> (\<exists>l\<in>set ls. \<exists>s\<in>set (spans l).
               cand_bbox invoice_candidate = span_bbox s
               \<and> cand_text invoice_candidate = strip (span_text s)))"
proof -
  have m: "invoice_candidate \<in> set (header_candidates invoice_layout (300, 312))"
    by (simp add: invoice_header_candidates)
  show ?thesis
    using candidates_come_from_blocks_above_boundary [OF invoice_boundary m] invoice_boundary m
    by blast
qed

section \<open>Properties of the Fallback Extractor\<close>

lemma valid_length: "is_valid_tsp_id_candidate n ctx \<Longrightarrow> 6 \<le> length n \<and> length n \<le> 8"
  by (auto simp: is_valid_tsp_id_candidate_def min_tsp_id_length_def max_tsp_id_length_def
      split: if_splits)

lemma fallback_success:
  "fallback_extraction td = Success r \<Longrightarrow>
     res_confidence r = 0.85 \<and> res_method r = ''fallback_extraction''
     \<and> res_tspId r \<in> set (findall_6_to_8_digits (all_text_of td))
     \<and> is_valid_tsp_id_candidate (res_tspId r) []"
proof -
  assume a: "fallback_extraction td = Success r"
  define vs where
    "vs = filter (\<lambda>c. is_valid_tsp_id_candidate c []) (findall_6_to_8_digits (all_text_of td))"
  from a have ne: "vs \<noteq> []" and r: "r = \<lparr>res_tspId = hd vs, res_confidence = 0.85,
       res_method = ''fallback_extraction'', res_page = 1,
       res_description = describe_tsp_id (hd vs) ''found using fallback method'',
       res_extraction_method = ''PyMuPDF Fallback'', res_accuracy = ''85%''\<rparr>"
    by (auto simp: fallback_extraction_def Let_def vs_def split: if_splits)
  from ne have "hd vs \<in> set vs" by simp
  then have "hd vs \<in> set (findall_6_to_8_digits (all_text_of td))"
    "is_valid_tsp_id_candidate (hd vs) []"
    by (simp_all add: vs_def)
  with r show ?thesis by simp
qed

lemma c5_all_text: "all_text_of c5_layout = ''TSP 164082 ''"
  by (simp add: all_text_of_def all_spans_def c5_layout_def get_blocks_def spans_of_block_def
      invoice_tsp_span_def)

lemma c5_findall: "findall_6_to_8_digits ''TSP 164082 '' = [''164082'']"
  by (simp add: regex_eval)

lemma c5_boundary: "find_summary_boundary c5_layout = None"
  by (simp add: find_summary_boundary_first_partial first_match_def all_spans_def c5_layout_def
      get_blocks_def spans_of_block_def invoice_tsp_span_def example_strip example_contains)

lemma c5_fallback:
  "fallback_extraction c5_layout =
     Success \<lparr>res_tspId = ''164082'', res_confidence = 0.85, res_method = ''fallback_extraction'',
       res_page = 1,
       res_description = describe_tsp_id ''164082'' ''found using fallback method'',
       res_extraction_method = ''PyMuPDF Fallback'', res_accuracy = ''85%''\<rparr>"
  by (simp add: fallback_extraction_def c5_all_text c5_findall example_valid Let_def)

lemma c5_run:
  "extract_tsp_id_from_pdf (Inr c5_document) = (fallback_extraction c5_layout, Released)"
  by (simp add: extract_tsp_id_from_pdf_def fitz_open_def extract_from_document_def
      c5_document_def c5_boundary doc_close_def)

text \<open>
  Claim C5, as the spec states it, adds the length bonus to the fallback confidence. On
  a page without the heading that holds \<^verbatim>\<open>TSP 164082\<close> the fallback succeeds with the
  6-digit identifier and confidence 0.85, where base plus bonus, clamped, is 0.86 (the
  value \<^verbatim>\<open>_calculate_confidence\<close> has for the method \<^verbatim>\<open>fallback\<close>, which the fallback
  path never calls).
\<close>

theorem fallback_confidence_has_no_length_bonus:
  "find_summary_boundary c5_layout = None
   \<and> fst (extract_tsp_id_from_pdf (Inr c5_document)) =
       Success \<lparr>res_tspId = ''164082'', res_confidence = 0.85,
         res_method = ''fallback_extraction'', res_page = 1,
         res_description = describe_tsp_id ''164082'' ''found using fallback method'',
         res_extraction_method = ''PyMuPDF Fallback'', res_accuracy = ''85%''\<rparr>
   \<and> length ''164082'' = 6
   \<and> min 1 (max 0 (0.85 + 0.01)) = (0.86 :: real)
   \<and> calculate_confidence ''164082'' ''fallback'' = 0.86
   \<and> (0.85 :: real) \<noteq> 0.86"
  by (simp add: c5_boundary c5_run c5_fallback calculate_confidence_def)

text \<open>
  Claim C5, amended. For every successful fallback extraction (header boundary absent,
  a validator-accepted token found), the confidence field of the result equals the
  fallback confidence 0.85, whatever the length of the identifier; no length bonus is
  added on this path.
\<close>

theorem fallback_confidence_is_base:
  assumes "doc_page_count doc \<noteq> 0" "doc_page_layout doc = Inr td"
    "find_summary_boundary td = None"
    "fst (extract_tsp_id_from_pdf (Inr doc)) = Success r"
  shows "res_confidence r = 0.85
         \<and> res_tspId r \<in> set (findall_6_to_8_digits (all_text_of td))
         \<and> is_valid_tsp_id_candidate (res_tspId r) []"
proof -
  from assms have "fallback_extraction td = Success r"
    by (simp add: extract_tsp_id_from_pdf_def fitz_open_def extract_from_document_def)
  from fallback_success [OF this] show ?thesis by simp
qed

theorem fallback_confidence_is_base_witness:
  "doc_page_count c5_document \<noteq> 0 \<and> doc_page_layout c5_document = Inr c5_layout
   \<and> find_summary_boundary c5_layout = None
   \<and> fst (extract_tsp_id_from_pdf (Inr c5_document)) =
       Success \<lparr>res_tspId = ''164082'', res_confidence = 0.85,
         res_method = ''fallback_extraction'', res_page = 1,
         res_description = describe_tsp_id ''164082'' ''found using fallback method'',
         res_extraction_method = ''PyMuPDF Fallback'', res_accuracy = ''85%''\<rparr>
   \<and> res_confidence \<lparr>res_tspId = ''164082'', res_confidence = 0.85,
         res_method = ''fallback_extraction'', res_page = 1,
         res_description = describe_tsp_id ''164082'' ''found using fallback method'',
         res_extraction_method = ''PyMuPDF Fallback'', res_accuracy = ''85%''\<rparr> = 0.85
   \<and> is_valid_tsp_id_candidate ''164082'' []"
proof -
  have a: "doc_page_count c5_document \<noteq> 0" "doc_page_layout c5_document = Inr c5_layout"
    by (simp_all add: c5_document_def)
  have r: "fst (extract_tsp_id_from_pdf (Inr c5_document)) =
       Success \<lparr>res_tspId = ''164082'', res_confidence = 0.85,
         res_method = ''fallback_extraction'', res_page = 1,
         res_description = describe_tsp_id ''164082'' ''found using fallback method'',
         res_extraction_method = ''PyMuPDF Fallback'', res_accuracy = ''85%''\<rparr>"
    by (simp add: c5_run c5_fallback)
  show ?thesis
    using fallback_confidence_is_base [OF a c5_boundary r] a c5_boundary r
    by simp
qed

section \<open>Release of the document handle\<close>

text \<open>The layout extractor releases the handle on every path that acquired it.\<close>

lemma layout_extractor_releases:
  "snd (extract_tsp_id_from_pdf (Inr doc)) = Released"
  "snd (extract_tsp_id_from_pdf (Inl msg)) = Not_Acquired"
  by (simp_all add: extract_tsp_id_from_pdf_def fitz_open_def doc_close_def)

text \<open>
  The first-match \<^verbatim>\<open>main\<close> returns with the handle still held exactly when the document
  was opened and has no pages, or reading its first page raised.
\<close>

lemma smart_main_handle_held:
  "snd (smart_main env) = Held \<longleftrightarrow>
     argv_len env = 2 \<and> path_exists env \<and> import_error env = None
     \<and> (\<exists>doc. fitz_outcome env = Inr doc
           \<and> (doc_page_count doc = 0 \<or> (\<exists>msg. doc_page_text doc = Inl msg)))"
  by (auto simp: smart_main_def process_pdf_def fitz_open_def doc_close_def Let_def
      split: option.splits sum.splits)

text \<open>
  Claim C8 asks every path that acquired the document handle to release it before the
  call returns. The layout extractor does; the first-match \<^verbatim>\<open>main\<close> does not on a file
  without pages, nor when reading the first page raises: it prints its error envelope
  and returns with the handle held.
\<close>

theorem first_match_main_leaves_handle_open:
  "smart_main zero_page_env
     = (error_output ''No pages found in PDF'' ''No pages found in PDF'', Held)
   \<and> smart_main unreadable_env
     = (error_output ''PDF processing error: cannot load page''
          ''PDF processing error: cannot load page'', Held)
   \<and> snd (extract_tsp_id_from_pdf (Inr zero_page_document)) = Released
   \<and> snd (extract_tsp_id_from_pdf (Inr unreadable_document)) = Released"
  by (simp add: smart_main_def process_pdf_def fitz_open_def zero_page_env_def
      unreadable_env_def zero_page_document_def unreadable_document_def
      layout_extractor_releases)

section \<open>Errors of the Layout-Boundary Extractor\<close>

lemma findall_no_digit: "no_digit s \<Longrightarrow> findall_from lo hi p s = []"
proof (induction s arbitrary: p)
  case Nil
  then show ?case by simp
next
  case (Cons c cs)
  then have "digit_run (c # cs) = 0"
    by (simp add: digit_run_def no_digit_def)
  then have "match_at lo hi p (c # cs) = None"
    by (simp add: match_at_def split: option.splits)
  with Cons show ?case
    by (simp add: no_digit_def)
qed

lemma set_strip: "set (strip s) \<subseteq> set s"
  by (auto simp: strip_def dest!: set_dropWhileD)

lemma no_digit_strip: "no_digit s \<Longrightarrow> no_digit (strip s)"
  using set_strip [of s] by (auto simp: no_digit_def list_all_iff)

lemma candidates_of_span_no_digit: "no_digit (span_text s) \<Longrightarrow> candidates_of_span s = []"
  by (simp add: candidates_of_span_def findall_6_to_8_digits_def findall_no_digit no_digit_strip)

lemma no_digit_concat: "list_all no_digit xs \<Longrightarrow> no_digit (concat xs)"
  by (induction xs) (auto simp: no_digit_def)

lemma all_text_no_digit:
  "list_all (\<lambda>s. no_digit (span_text s)) (all_spans td) \<Longrightarrow> no_digit (all_text_of td)"
  unfolding all_text_of_def
  by (rule no_digit_concat) (auto simp: list_all_iff no_digit_def is_digit_def)

lemma fallback_no_digit:
  "list_all (\<lambda>s. no_digit (span_text s)) (all_spans td) \<Longrightarrow>
     fallback_extraction td = Failure ''No TSP ID found using fallback method''"
  by (simp add: fallback_extraction_def findall_6_to_8_digits_def findall_no_digit
      all_text_no_digit)

lemma collect_header_blocks_subset:
  "collect_header_blocks y bs = Inr hs \<Longrightarrow> set hs \<subseteq> set bs"
  by (induction bs arbitrary: hs) (auto split: option.splits sum.splits if_splits)

lemma candidates_of_block_no_digit:
  "list_all (\<lambda>s. no_digit (span_text s)) (spans_of_block b) \<Longrightarrow> candidates_of_block b = []"
  by (auto simp: candidates_of_block_def spans_of_block_def list_all_iff
      split: option.splits intro!: candidates_of_span_no_digit) blast

lemma header_candidates_no_digit:
  assumes "list_all (\<lambda>s. no_digit (span_text s)) (all_spans td)"
  shows "header_candidates td sb = []"
proof (cases "header_blocks_of td (fst sb)")
  case (Inl e)
  then show ?thesis by (simp add: header_candidates_def)
next
  case (Inr hs)
  then have "set hs \<subseteq> set (get_blocks td)"
    using collect_header_blocks_subset [of "fst sb" "get_blocks td"]
    by (auto simp: header_blocks_of_def split: sum.splits)
  moreover have "\<forall>b\<in>set (get_blocks td). candidates_of_block b = []"
    using assms by (auto simp: all_spans_def list_all_iff intro!: candidates_of_block_no_digit)
  ultimately show ?thesis
    using Inr by (auto simp: header_candidates_def extract_tsp_id_candidates_def)
qed

lemma extract_no_digit:
  assumes "list_all (\<lambda>s. no_digit (span_text s)) (all_spans td)"
    "doc_page_count doc \<noteq> 0" "doc_page_layout doc = Inr td"
  shows "fst (extract_tsp_id_from_pdf (Inr doc)) = Failure ''No TSP ID found using fallback method''
       \<or> fst (extract_tsp_id_from_pdf (Inr doc)) = Failure ''No TSP ID found in header section''"
  using assms fallback_no_digit [OF assms(1)] header_candidates_no_digit [OF assms(1)]
  by (auto simp: extract_tsp_id_from_pdf_def fitz_open_def extract_from_document_def
      extract_from_header_section_candidates split: option.splits)

lemma extract_empty_page:
  assumes "all_spans td = []" "doc_page_count doc \<noteq> 0" "doc_page_layout doc = Inr td"
  shows "fst (extract_tsp_id_from_pdf (Inr doc)) = Failure ''No TSP ID found using fallback method''"
proof -
  have b: "find_summary_boundary td = None"
    by (simp add: find_summary_boundary_first_partial first_match_def assms(1))
  have f: "fallback_extraction td = Failure ''No TSP ID found using fallback method''"
    by (rule fallback_no_digit) (simp add: assms(1))
  show ?thesis
    using assms b f
    by (simp add: extract_tsp_id_from_pdf_def fitz_open_def extract_from_document_def doc_close_def)
qed

lemma fallback_failure:
  "filter (\<lambda>c. is_valid_tsp_id_candidate c []) (findall_6_to_8_digits (all_text_of td)) = []
     \<Longrightarrow> fallback_extraction td = Failure ''No TSP ID found using fallback method''"
  by (simp add: fallback_extraction_def Let_def)

lemma extract_result:
  assumes "doc_page_count doc \<noteq> 0" "doc_page_layout doc = Inr td"
  shows "find_summary_boundary td = None \<Longrightarrow>
           fst (extract_tsp_id_from_pdf (Inr doc)) = fallback_extraction td"
    and "find_summary_boundary td = Some sb \<Longrightarrow> header_candidates td sb = [] \<Longrightarrow>
           fst (extract_tsp_id_from_pdf (Inr doc)) = Failure ''No TSP ID found in header section''"
  using assms
  by (simp_all add: extract_tsp_id_from_pdf_def fitz_open_def extract_from_document_def
      extract_from_header_section_candidates)

lemma success_cases:
  assumes "fst (extract_tsp_id_from_pdf outcome) = Success r"
  shows "\<exists>doc td. outcome = Inr doc \<and> doc_page_count doc \<noteq> 0 \<and> doc_page_layout doc = Inr td
           \<and> res_tspId r \<noteq> []
           \<and> ((find_summary_boundary td = None \<and> fallback_extraction td = Success r)
               \<or> (\<exists>sb. find_summary_boundary td = Some sb \<and> header_candidates td sb \<noteq> []
                      \<and> select_best_candidate (header_candidates td sb) = Some (res_tspId r)))"
proof -
  have ne: "res_tspId r \<noteq> []" if "fallback_extraction td = Success r" for td
    using fallback_success [OF that] valid_length [of "res_tspId r" "[]"] by auto
  show ?thesis
    using assms ne
    by (auto simp: extract_tsp_id_from_pdf_def fitz_open_def extract_from_document_def Let_def
        extract_from_header_section_candidates
        split: sum.splits option.splits if_splits)
qed

lemma c9_raise: "boundary_in_blocks (get_blocks c9_layout) = Inl IndexError"
  by (simp add: c9_layout_def get_blocks_def invoice_tsp_span_def c9_bad_heading_span_def
      example_strip example_contains span_y_range_def bbox_get_def)

lemma c9_boundary: "find_summary_boundary c9_layout = None"
  by (simp add: find_summary_boundary_def c9_raise)

lemma c9_all_text:
  "all_text_of c9_layout = ''TSP 164082 Summary of VIDAPAY Charges and Payments ''"
  by (simp add: all_text_of_def all_spans_def c9_layout_def get_blocks_def spans_of_block_def
      invoice_tsp_span_def c9_bad_heading_span_def)

lemma c9_findall:
  "findall_6_to_8_digits ''TSP 164082 Summary of VIDAPAY Charges and Payments '' = [''164082'']"
  by (simp add: regex_eval)

lemma c9_fallback:
  "fallback_extraction c9_layout =
     Success \<lparr>res_tspId = ''164082'', res_confidence = 0.85,
       res_method = ''fallback_extraction'', res_page = 1,
       res_description = describe_tsp_id ''164082'' ''found using fallback method'',
       res_extraction_method = ''PyMuPDF Fallback'', res_accuracy = ''85%''\<rparr>"
  by (simp add: fallback_extraction_def c9_all_text c9_findall example_valid Let_def)

text \<open>
  Claim C9, as the spec states it, turns every error that arises inside a call into a
  failure record. On the invoice with a heading span whose bounding box has two entries,
  the locator raises \<^verbatim>\<open>IndexError\<close> at \<^verbatim>\<open>bbox[3]\<close>; its own handler answers "not
  found", the call goes on with the fallback, and the result is a success payload.
\<close>

theorem swallowed_error_ends_in_success:
  "boundary_in_blocks (get_blocks c9_layout) = Inl IndexError
   \<and> find_summary_boundary c9_layout = None
   \<and> fst (extract_tsp_id_from_pdf (Inr c9_document)) =
       Success \<lparr>res_tspId = ''164082'', res_confidence = 0.85,
         res_method = ''fallback_extraction'', res_page = 1,
         res_description = describe_tsp_id ''164082'' ''found using fallback method'',
         res_extraction_method = ''PyMuPDF Fallback'', res_accuracy = ''85%''\<rparr>"
  by (simp add: c9_raise c9_boundary extract_tsp_id_from_pdf_def fitz_open_def
      extract_from_document_def c9_document_def c9_fallback)

text \<open>
  Claim C9, amended. Every exception that reaches the top level of one call of the
  layout extractor, raised by opening the document or by reading its first page, is
  converted into the failure record \<^verbatim>\<open>{"error": "PDF processing error: ..."}\<close>. A
  document without pages, a page with empty or blockless text, a page without heading
  and without validator-accepted token, and a header region without candidate are
  reported as failure records too. An exception inside a helper step is swallowed there
  with a default: one in the locator counts as "heading not found" and the call returns
  what the fallback returns, one in the header-region filter counts as "no candidate".
  A success payload is returned only when the document was opened, has pages and its
  page was read, and either no boundary was found and the fallback succeeded, or a
  boundary was found and the selector chose among the harvested candidates. No exception
  surfaces to the caller.
\<close>

theorem errors_become_failure_records:
  "(outcome = Inl msg \<longrightarrow>
      fst (extract_tsp_id_from_pdf outcome) = Failure (''PDF processing error: '' @ msg))
   \<and> (outcome = Inr doc \<and> doc_page_count doc = 0 \<longrightarrow>
      fst (extract_tsp_id_from_pdf outcome) = Failure ''Empty PDF document'')
   \<and> (outcome = Inr doc \<and> doc_page_count doc \<noteq> 0 \<and> doc_page_layout doc = Inl msg \<longrightarrow>
      fst (extract_tsp_id_from_pdf outcome) = Failure (''PDF processing error: '' @ msg))
   \<and> (outcome = Inr doc \<and> doc_page_count doc \<noteq> 0 \<and> doc_page_layout doc = Inr td
        \<and> all_spans td = [] \<longrightarrow>
      fst (extract_tsp_id_from_pdf outcome) = Failure ''No TSP ID found using fallback method'')
   \<and> (outcome = Inr doc \<and> doc_page_count doc \<noteq> 0 \<and> doc_page_layout doc = Inr td
        \<and> find_summary_boundary td = None
        \<and> filter (\<lambda>c. is_valid_tsp_id_candidate c []) (findall_6_to_8_digits (all_text_of td)) = []
      \<longrightarrow>
      fst (extract_tsp_id_from_pdf outcome) = Failure ''No TSP ID found using fallback method'')
   \<and> (outcome = Inr doc \<and> doc_page_count doc \<noteq> 0 \<and> doc_page_layout doc = Inr td
        \<and> find_summary_boundary td = Some sb \<and> header_candidates td sb = [] \<longrightarrow>
      fst (extract_tsp_id_from_pdf outcome) = Failure ''No TSP ID found in header section'')
   \<and> (outcome = Inr doc \<and> doc_page_count doc \<noteq> 0 \<and> doc_page_layout doc = Inr td
        \<and> boundary_in_blocks (get_blocks td) = Inl e \<longrightarrow>
      fst (extract_tsp_id_from_pdf outcome) = fallback_extraction td)
   \<and> (outcome = Inr doc \<and> doc_page_count doc \<noteq> 0 \<and> doc_page_layout doc = Inr td
        \<and> find_summary_boundary td = Some sb \<and> header_blocks_of td (fst sb) = Inl e \<longrightarrow>
      fst (extract_tsp_id_from_pdf outcome) = Failure ''No TSP ID found in header section'')
   \<and> (fst (extract_tsp_id_from_pdf outcome) = Success r \<longrightarrow>
        (\<exists>doc td. outcome = Inr doc \<and> doc_page_count doc \<noteq> 0 \<and> doc_page_layout doc = Inr td
           \<and> res_tspId r \<noteq> []
           \<and> ((find_summary_boundary td = None \<and> fallback_extraction td = Success r)
               \<or> (\<exists>sb. find_summary_boundary td = Some sb \<and> header_candidates td sb \<noteq> []
                      \<and> select_best_candidate (header_candidates td sb) = Some (res_tspId r)))))"
proof (intro conjI impI)
  assume "outcome = Inl msg"
  then show "fst (extract_tsp_id_from_pdf outcome) = Failure (''PDF processing error: '' @ msg)"
    by (simp add: extract_tsp_id_from_pdf_def fitz_open_def)
next
  assume "outcome = Inr doc \<and> doc_page_count doc = 0"
  then show "fst (extract_tsp_id_from_pdf outcome) = Failure ''Empty PDF document''"
    by (simp add: extract_tsp_id_from_pdf_def fitz_open_def extract_from_document_def)
next
  assume "outcome = Inr doc \<and> doc_page_count doc \<noteq> 0 \<and> doc_page_layout doc = Inl msg"
  then show "fst (extract_tsp_id_from_pdf outcome) = Failure (''PDF processing error: '' @ msg)"
    by (simp add: extract_tsp_id_from_pdf_def fitz_open_def extract_from_document_def)
next
  assume "outcome = Inr doc \<and> doc_page_count doc \<noteq> 0 \<and> doc_page_layout doc = Inr td
        \<and> all_spans td = []"
  then show "fst (extract_tsp_id_from_pdf outcome)
      = Failure ''No TSP ID found using fallback method''"
    using extract_empty_page [of td doc] by simp
next
  assume "outcome = Inr doc \<and> doc_page_count doc \<noteq> 0 \<and> doc_page_layout doc = Inr td
        \<and> find_summary_boundary td = None
        \<and> filter (\<lambda>c. is_valid_tsp_id_candidate c []) (findall_6_to_8_digits (all_text_of td)) = []"
  then show "fst (extract_tsp_id_from_pdf outcome)
      = Failure ''No TSP ID found using fallback method''"
    using extract_result(1) [of doc td] fallback_failure [of td] by simp
next
  assume "outcome = Inr doc \<and> doc_page_count doc \<noteq> 0 \<and> doc_page_layout doc = Inr td
        \<and> find_summary_boundary td = Some sb \<and> header_candidates td sb = []"
  then show "fst (extract_tsp_id_from_pdf outcome) = Failure ''No TSP ID found in header section''"
    using extract_result(2) [of doc td sb] by simp
next
  assume "outcome = Inr doc \<and> doc_page_count doc \<noteq> 0 \<and> doc_page_layout doc = Inr td
        \<and> boundary_in_blocks (get_blocks td) = Inl e"
  then show "fst (extract_tsp_id_from_pdf outcome) = fallback_extraction td"
    using extract_result(1) [of doc td] by (simp add: find_summary_boundary_def)
next
  assume "outcome = Inr doc \<and> doc_page_count doc \<noteq> 0 \<and> doc_page_layout doc = Inr td
        \<and> find_summary_boundary td = Some sb \<and> header_blocks_of td (fst sb) = Inl e"
  then show "fst (extract_tsp_id_from_pdf outcome) = Failure ''No TSP ID found in header section''"
    using extract_result(2) [of doc td sb] by (simp add: header_candidates_def)
next
  assume "fst (extract_tsp_id_from_pdf outcome) = Success r"
  then show "\<exists>doc td. outcome = Inr doc \<and> doc_page_count doc \<noteq> 0 \<and> doc_page_layout doc = Inr td
           \<and> res_tspId r \<noteq> []
           \<and> ((find_summary_boundary td = None \<and> fallback_extraction td = Success r)
               \<or> (\<exists>sb. find_summary_boundary td = Some sb \<and> header_candidates td sb \<noteq> []
                      \<and> select_best_candidate (header_candidates td sb) = Some (res_tspId r)))"
    by (rule success_cases)
qed

lemma invoice_extract: "extract_from_header_section invoice_layout (300, 312) = Some ''164082''"
  by (simp add: extract_from_header_section_candidates invoice_header_candidates
      select_best_candidate_def invoice_candidate_def)

lemma invoice_run:
  "fst (extract_tsp_id_from_pdf (Inr invoice_document)) =
     Success \<lparr>res_tspId = ''164082'', res_confidence = 0.99,
       res_method = ''position_based_extraction'', res_page = 1,
       res_description =
         describe_tsp_id ''164082'' ''found in header section using position analysis'',
       res_extraction_method = ''PyMuPDF Layout Analysis'', res_accuracy = ''100%''\<rparr>"
  by (simp add: extract_tsp_id_from_pdf_def fitz_open_def extract_from_document_def
      invoice_document_def invoice_boundary invoice_extract calculate_confidence_def)

lemma dated_eval:
  "strip ''Date 020125'' = ''Date 020125''"
  "findall_6_to_8_digits ''Date 020125'' = [''020125'']"
  "findall_6_to_8_digits ''Date 020125 '' = [''020125'']"
  "\<not> is_valid_tsp_id_candidate ''020125'' ''Date 020125''"
  "\<not> is_valid_tsp_id_candidate ''020125'' []"
  "\<not> str_contains partial_heading ''Date 020125''"
  "\<not> str_contains exact_heading ''Date 020125''"
  by (simp_all add: strip_def is_space_def regex_eval validator_eval str_contains_def
      partial_heading_def exact_heading_def sublist_Cons_right)

lemma heading_y_range: "y_range_opt invoice_heading_span = Some (300, 312)"
  by (simp add: y_range_opt_def span_y_range_def bbox_get_def invoice_heading_span_def)

lemma dated_facts:
  "find_summary_boundary dated_layout = None"
  "filter (\<lambda>c. is_valid_tsp_id_candidate c [])
     (findall_6_to_8_digits (all_text_of dated_layout)) = []"
  "find_summary_boundary dated_header_layout = Some (300, 312)"
  "header_candidates dated_header_layout (300, 312) = []"
proof -
  have s: "all_spans dated_layout = [dated_span]"
    "all_spans dated_header_layout = [dated_span, invoice_heading_span]"
    by (simp_all add: all_spans_def dated_layout_def dated_header_layout_def get_blocks_def
        spans_of_block_def)
  show "find_summary_boundary dated_layout = None"
    by (simp add: find_summary_boundary_first_partial s first_match_def dated_span_def
        dated_eval)
  show "filter (\<lambda>c. is_valid_tsp_id_candidate c [])
     (findall_6_to_8_digits (all_text_of dated_layout)) = []"
    by (simp add: all_text_of_def s dated_span_def dated_eval)
  show "find_summary_boundary dated_header_layout = Some (300, 312)"
    by (simp add: find_summary_boundary_first_partial s first_match_def dated_span_def
        dated_eval heading_y_range)
      (simp add: invoice_heading_span_def example_strip example_contains)
  have "candidates_of_span dated_span = []"
    by (simp add: candidates_of_span_def dated_span_def dated_eval)
  then show "header_candidates dated_header_layout (300, 312) = []"
    by (simp add: header_candidates_def header_blocks_of_def dated_header_layout_def
        get_blocks_def bbox_get_def extract_tsp_id_candidates_def candidates_of_block_def)
qed

lemma bad_block_facts:
  "find_summary_boundary bad_block_layout = Some (300, 312)"
  "header_blocks_of bad_block_layout (fst (300 :: real, 312 :: real)) = Inl IndexError"
proof -
  have s: "all_spans bad_block_layout = [invoice_tsp_span, invoice_heading_span]"
    by (simp add: all_spans_def bad_block_layout_def get_blocks_def spans_of_block_def)
  show "find_summary_boundary bad_block_layout = Some (300, 312)"
    by (simp add: find_summary_boundary_first_partial s first_match_def invoice_tsp_span_def
        example_strip example_contains heading_y_range)
      (simp add: invoice_heading_span_def example_strip example_contains)
  show "header_blocks_of bad_block_layout (fst (300 :: real, 312 :: real)) = Inl IndexError"
    by (simp add: header_blocks_of_def bad_block_layout_def get_blocks_def bbox_get_def)
qed

theorem errors_become_failure_records_witness:
  "fst (extract_tsp_id_from_pdf (Inl ''no such file''))
     = Failure ''PDF processing error: no such file''
   \<and> fst (extract_tsp_id_from_pdf (Inr zero_page_document)) = Failure ''Empty PDF document''
   \<and> fst (extract_tsp_id_from_pdf (Inr unreadable_document))
     = Failure ''PDF processing error: cannot load page''
   \<and> fst (extract_tsp_id_from_pdf (Inr blank_document))
     = Failure ''No TSP ID found using fallback method''
   \<and> fst (extract_tsp_id_from_pdf (Inr dated_document))
     = Failure ''No TSP ID found using fallback method''
   \<and> fst (extract_tsp_id_from_pdf (Inr dated_header_document))
     = Failure ''No TSP ID found in header section''
   \<and> fst (extract_tsp_id_from_pdf (Inr c9_document)) = fallback_extraction c9_layout
   \<and> fst (extract_tsp_id_from_pdf (Inr bad_block_document))
     = Failure ''No TSP ID found in header section''
   \<and> (\<exists>doc td. (Inr invoice_document :: string + document) = Inr doc
         \<and> doc_page_count doc \<noteq> 0 \<and> doc_page_layout doc = Inr td
         \<and> (\<exists>sb. find_summary_boundary td = Some sb \<and> header_candidates td sb \<noteq> []
               \<and> select_best_candidate (header_candidates td sb) = Some ''164082''))"
proof -
  let ?r = "\<lparr>res_tspId = ''164082'', res_confidence = 0.99,
       res_method = ''position_based_extraction'', res_page = 1,
       res_description =
         describe_tsp_id ''164082'' ''found in header section using position analysis'',
       res_extraction_method = ''PyMuPDF Layout Analysis'', res_accuracy = ''100%''\<rparr>"
  have a: "fst (extract_tsp_id_from_pdf (Inl ''no such file''))
     = Failure ''PDF processing error: no such file''"
    using errors_become_failure_records [of "Inl ''no such file''" "''no such file''"]
    by simp
  have b: "fst (extract_tsp_id_from_pdf (Inr zero_page_document)) = Failure ''Empty PDF document''"
    using errors_become_failure_records [of "Inr zero_page_document" _ zero_page_document]
    by (simp add: zero_page_document_def)
  have c: "fst (extract_tsp_id_from_pdf (Inr unreadable_document))
     = Failure ''PDF processing error: cannot load page''"
    using errors_become_failure_records [of "Inr unreadable_document" "''cannot load page''"
        unreadable_document]
    by (simp add: unreadable_document_def)
  have d: "fst (extract_tsp_id_from_pdf (Inr blank_document))
     = Failure ''No TSP ID found using fallback method''"
    using errors_become_failure_records [of "Inr blank_document" _ blank_document
        "\<lparr>blocks = Some []\<rparr>"]
    by (simp add: blank_document_def all_spans_def get_blocks_def)
  have e: "fst (extract_tsp_id_from_pdf (Inr dated_document))
     = Failure ''No TSP ID found using fallback method''"
    using errors_become_failure_records [of "Inr dated_document" _ dated_document dated_layout]
      dated_facts(1,2)
    by (simp add: dated_document_def)
  have f: "fst (extract_tsp_id_from_pdf (Inr dated_header_document))
     = Failure ''No TSP ID found in header section''"
    using errors_become_failure_records [of "Inr dated_header_document" _
        dated_header_document dated_header_layout "(300, 312)"] dated_facts(3,4)
    by (simp add: dated_header_document_def)
  have g: "fst (extract_tsp_id_from_pdf (Inr c9_document)) = fallback_extraction c9_layout"
    using errors_become_failure_records [of "Inr c9_document" _ c9_document c9_layout _
        IndexError] c9_raise
    by (simp add: c9_document_def)
  have h: "fst (extract_tsp_id_from_pdf (Inr bad_block_document))
     = Failure ''No TSP ID found in header section''"
    using errors_become_failure_records [of "Inr bad_block_document" _ bad_block_document
        bad_block_layout "(300, 312)" IndexError] bad_block_facts
    by (simp add: bad_block_document_def)
  have i: "\<exists>doc td. (Inr invoice_document :: string + document) = Inr doc
         \<and> doc_page_count doc \<noteq> 0 \<and> doc_page_layout doc = Inr td
         \<and> (\<exists>sb. find_summary_boundary td = Some sb \<and> header_candidates td sb \<noteq> []
               \<and> select_best_candidate (header_candidates td sb) = Some ''164082'')"
  proof -
    have "fallback_extraction td \<noteq> Success ?r" for td
      using fallback_success [of td ?r] by auto
    then show ?thesis
      using errors_become_failure_records [of "Inr invoice_document" _ _ _ _ _ ?r] invoice_run
      by auto
  qed
  show ?thesis
    using a b c d e f g h i by blast
qed

section \<open>Properties of the regular-expression harvest and the First-Match Extractor\<close>

lemma split_runs_takeWhile:
  "split_runs P s = takeWhile P s # (case dropWhile P s of [] \<Rightarrow> [] | x # rest \<Rightarrow> split_runs P rest)"
  by (induction s) (auto split: list.splits)

lemma maximal_runs_not: "\<not> P c \<Longrightarrow> maximal_runs P (c # cs) = maximal_runs P cs"
  by (simp add: maximal_runs_def)

lemma maximal_runs_split:
  "maximal_runs P s =
     (if takeWhile P s = [] then [] else [takeWhile P s]) @ maximal_runs P (dropWhile P s)"
proof -
  have step: "maximal_runs P s = filter (\<lambda>r. r \<noteq> [])
      (takeWhile P s # (case dropWhile P s of [] \<Rightarrow> [] | x # rest \<Rightarrow> split_runs P rest))"
    unfolding maximal_runs_def by (subst split_runs_takeWhile) simp
  show ?thesis
  proof (cases "dropWhile P s")
    case Nil
    from step show ?thesis
      unfolding Nil by (simp add: maximal_runs_def)
  next
    case (Cons x rest)
    then have "\<not> P x"
      by (metis hd_dropWhile list.sel(1) list.distinct(1))
    with step show ?thesis
      unfolding Cons by (simp add: maximal_runs_def)
  qed
qed

lemma digit_words_Nil: "digit_words [] = []"
  by (simp add: digit_words_def maximal_runs_def)

lemma digit_words_not_word: "\<not> is_word c \<Longrightarrow> digit_words (c # cs) = digit_words cs"
  by (simp add: digit_words_def maximal_runs_not)

lemma digit_words_word:
  "is_word c \<Longrightarrow> digit_words (c # cs) =
     (if list_all is_digit (takeWhile is_word (c # cs)) then [takeWhile is_word (c # cs)] else [])
     @ digit_words (dropWhile is_word cs)"
  unfolding digit_words_def
  by (subst maximal_runs_split) simp

lemma is_digit_is_word: "is_digit c \<Longrightarrow> is_word c"
  by (simp add: is_digit_def is_word_def Let_def)


lemma nth_digit_run: "k < digit_run s \<Longrightarrow> is_digit (s ! k)"
  unfolding digit_run_def
  by (metis nth_mem set_takeWhileD takeWhile_nth length_takeWhile_le less_le_trans)

lemma digit_run_le: "digit_run s \<le> length s"
  by (simp add: digit_run_def length_takeWhile_le)

lemma backtrack_result:
  "k \<le> digit_run s \<Longrightarrow>
     backtrack s lo k =
       (if k = digit_run s \<and> lo \<le> k \<and> 0 < k \<and> \<not> is_word_opt (nth_opt s k) then Some k else None)"
proof (induction k)
  case 0
  then show ?case by simp
next
  case (Suc k)
  then have d: "is_word_opt (Some (s ! k))"
    using nth_digit_run [of k s] by (simp add: is_word_opt_def is_digit_is_word)
  show ?case
  proof (cases "Suc k < digit_run s")
    case True
    then have "is_word_opt (nth_opt s (Suc k))"
      using nth_digit_run [of "Suc k" s] digit_run_le [of s]
      by (simp add: is_word_opt_def nth_opt_def is_digit_is_word)
    with Suc True d show ?thesis
      by (simp add: word_boundary_def)
  next
    case False
    with Suc have e: "digit_run s = Suc k" by simp
    from Suc(1) have "backtrack s lo k = None"
      by (simp add: e)
    with d show ?thesis
      by (simp add: word_boundary_def e)
  qed
qed

lemma takeWhile_word_digit:
  "\<not> is_word_opt (nth_opt s (digit_run s)) \<longleftrightarrow> takeWhile is_word s = takeWhile is_digit s"
proof (induction s)
  case Nil
  then show ?case by (simp add: nth_opt_def is_word_opt_def digit_run_def)
next
  case (Cons c cs)
  then show ?case
    by (auto simp: nth_opt_def is_word_opt_def digit_run_def is_digit_is_word)
qed

lemma all_digits_takeWhile:
  "list_all is_digit (takeWhile is_word s) \<longleftrightarrow> takeWhile is_word s = takeWhile is_digit s"
proof (induction s)
  case Nil
  then show ?case by simp
next
  case (Cons c cs)
  then show ?case
    by (auto simp: is_digit_is_word)
qed

lemma match_at_result:
  "match_at lo hi p s =
     (if \<not> is_word_opt p \<and> s \<noteq> [] \<and> is_word (hd s)
         \<and> list_all is_digit (takeWhile is_word s) \<and> in_range lo hi (takeWhile is_word s)
      then Some (length (takeWhile is_word s)) else None)"
proof (cases s)
  case Nil
  then show ?thesis
    by (simp add: match_at_def word_boundary_def nth_opt_def is_word_opt_def digit_run_def
        split: option.splits)
next
  case (Cons c cs)
  define n where "n = digit_run s"
  define cap where "cap = (case hi of None \<Rightarrow> n | Some h \<Rightarrow> min h n)"
  have cap: "cap \<le> n" "cap = n \<longleftrightarrow> (case hi of None \<Rightarrow> True | Some h \<Rightarrow> n \<le> h)"
    by (auto simp: cap_def split: option.splits)
  have bt: "backtrack s lo cap =
       (if cap = n \<and> lo \<le> cap \<and> 0 < cap \<and> \<not> is_word_opt (nth_opt s cap) then Some cap else None)"
    using backtrack_result [of cap s lo] cap(1) by (simp add: n_def)
  have wb: "word_boundary p (nth_opt s 0) \<longleftrightarrow> (is_word_opt p \<noteq> is_word c)"
    by (simp add: word_boundary_def nth_opt_def Cons is_word_opt_def)
  show ?thesis
  proof (cases "is_word_opt p")
    case True
    show ?thesis
    proof (cases "is_word c")
      case w: True
      with True wb show ?thesis by (simp add: match_at_def)
    next
      case w: False
      then have "n = 0"
        using is_digit_is_word [of c] by (auto simp: n_def digit_run_def Cons)
      with True show ?thesis
        by (simp add: match_at_def n_def split: option.splits)
    qed
  next
    case False
    show ?thesis
    proof (cases "is_word c")
      case w: True
      have eq: "(\<not> is_word_opt (nth_opt s n)) = list_all is_digit (takeWhile is_word s)"
        by (simp add: n_def takeWhile_word_digit all_digits_takeWhile)
      have len: "list_all is_digit (takeWhile is_word s) \<Longrightarrow> length (takeWhile is_word s) = n"
        by (simp add: all_digits_takeWhile n_def digit_run_def)
      have pos: "list_all is_digit (takeWhile is_word s) \<Longrightarrow> 0 < n"
        using len w by (auto simp: Cons)
      have "match_at lo hi p s = backtrack s lo cap"
        unfolding cap_def n_def using False w wb by (simp add: match_at_def)
      also have "\<dots> = (if list_all is_digit (takeWhile is_word s)
            \<and> in_range lo hi (takeWhile is_word s) then Some n else None)"
        using bt cap(2) eq len pos by (auto simp: in_range_def)
      finally show ?thesis
        using False w len by (auto simp: Cons)
    next
      case w: False
      with False wb show ?thesis by (simp add: match_at_def Cons)
    qed
  qed
qed


lemma findall_from_digit_words:
  "findall_from lo hi p s =
     filter (in_range lo hi) (digit_words (if is_word_opt p then dropWhile is_word s else s))"
proof (induction s arbitrary: p rule: length_induct)
  case (1 s)
  show ?case
  proof (cases s)
    case Nil
    then show ?thesis by (simp add: digit_words_Nil)
  next
    case (Cons c cs)
    define w where "w = takeWhile is_word (c # cs)"
    define k where "k = length (takeWhile is_word cs)"
    have ih: "findall_from lo hi q t =
        filter (in_range lo hi) (digit_words (if is_word_opt q then dropWhile is_word t else t))"
      if "length t \<le> length cs" for q t
      using 1 that by (simp add: Cons)
    have mr: "match_at lo hi p (c # cs) =
        (if \<not> is_word_opt p \<and> is_word c \<and> list_all is_digit w \<and> in_range lo hi w
         then Some (length w) else None)"
      unfolding w_def using match_at_result [of lo hi p "c # cs"] by simp
    have dw: "digit_words (c # cs) =
        (if list_all is_digit w then [w] else []) @ digit_words (dropWhile is_word cs)"
      if "is_word c"
      unfolding w_def using that by (rule digit_words_word)
    show ?thesis
    proof (cases "\<not> is_word_opt p \<and> is_word c \<and> list_all is_digit w \<and> in_range lo hi w")
      case True
      then have wc: "is_word c" by simp
      have w: "w = c # takeWhile is_word cs" and lw: "length w = Suc k"
        using wc by (simp_all add: w_def k_def)
      have m: "match_at lo hi p (c # cs) = Some (Suc k)"
        using True lw by (simp add: mr)
      have tk: "c # take k cs = w"
        using takeWhile_eq_take [of is_word cs] by (simp add: w k_def)
      have dk: "drop k cs = dropWhile is_word cs"
        using dropWhile_eq_drop [of is_word cs] by (simp add: k_def)
      have "k < length w" by (simp add: lw)
      then have eq: "(c # cs) ! k = w ! k"
        unfolding w_def by (rule takeWhile_nth [symmetric])
      have "w ! k \<in> set w"
        using \<open>k < length w\<close> by (rule nth_mem)
      then have "is_word (w ! k)"
        unfolding w_def by (blast dest: set_takeWhileD)
      then have pw: "is_word_opt (Some ((c # cs) ! k))"
        unfolding eq by (simp add: is_word_opt_def)
      have rest: "findall_from lo hi (Some ((c # cs) ! k)) (drop k cs) =
          filter (in_range lo hi) (digit_words (dropWhile is_word cs))"
        using ih [of "drop k cs" "Some ((c # cs) ! k)"] pw
        by (simp add: dk [symmetric]) (simp add: dk)
      have "findall_from lo hi p s = w # filter (in_range lo hi) (digit_words (dropWhile is_word cs))"
        using m rest by (simp add: Cons tk)
      moreover have "filter (in_range lo hi) (digit_words (if is_word_opt p then dropWhile is_word s else s))
          = w # filter (in_range lo hi) (digit_words (dropWhile is_word cs))"
        using True by (simp add: Cons dw)
      ultimately show ?thesis by simp
    next
      case False
      then have m: "match_at lo hi p (c # cs) = None"
        by (simp add: mr)
      have "findall_from lo hi p s = findall_from lo hi (Some c) cs"
        using m by (simp add: Cons)
      also have "\<dots> = filter (in_range lo hi)
          (digit_words (if is_word c then dropWhile is_word cs else cs))"
        using ih [of cs "Some c"] by (simp add: is_word_opt_def)
      also have "\<dots> = filter (in_range lo hi)
          (digit_words (if is_word_opt p then dropWhile is_word s else s))"
        using False
        by (auto simp: Cons dw digit_words_not_word)
      finally show ?thesis .
    qed
  qed
qed

lemma findall_digits_digit_words: "findall_digits text = digit_words text"
proof -
  have "in_range 1 None t" if "t \<in> set (digit_words text)" for t
  proof -
    from that have "t \<noteq> []"
      by (auto simp: digit_words_def maximal_runs_def)
    then show ?thesis
      by (cases t) (simp_all add: in_range_def)
  qed
  then show ?thesis
    by (simp add: findall_digits_def findall_from_digit_words is_word_opt_def filter_id_conv)
qed

lemma isdigit_str_isdigit: "isdigit s \<Longrightarrow> str_isdigit s"
  by (auto simp: isdigit_def str_isdigit_def list_all_iff)

lemma first_six_digit_find:
  "list_all isdigit xs \<Longrightarrow> first_six_digit xs = find (\<lambda>r. length r = 6) xs"
  by (induction xs) (auto simp: isdigit_str_isdigit)

lemma digit_words_isdigit: "list_all isdigit (digit_words text)"
  by (auto simp: list_all_iff digit_words_def maximal_runs_def isdigit_def)

lemma extract_tsp_id_smart_digit_words:
  "extract_tsp_id_smart text = find (\<lambda>r. length r = 6) (digit_words text)"
  by (simp add: extract_tsp_id_smart_def findall_digits_digit_words first_six_digit_find
      digit_words_isdigit)


lemma split_runs_nonempty: "split_runs P s \<noteq> []"
  by (induction s) (auto split: list.splits)

lemma split_runs_append:
  "\<not> P x \<Longrightarrow> split_runs P (a @ x # b) = split_runs P a @ split_runs P b"
proof (induction a)
  case Nil
  then show ?case by simp
next
  case (Cons c a)
  then show ?case
    using split_runs_nonempty [of P a] by (cases "split_runs P a") auto
qed

lemma maximal_runs_append:
  assumes "b = [] \<or> \<not> P (hd b)"
  shows "maximal_runs P (a @ b) = maximal_runs P a @ maximal_runs P b"
proof (cases b)
  case Nil
  then show ?thesis by (simp add: maximal_runs_def)
next
  case (Cons x b')
  with assms have "\<not> P x" by simp
  then show ?thesis
    by (simp add: Cons maximal_runs_def split_runs_append)
qed

lemma digit_words_append:
  "b = [] \<or> \<not> is_word (hd b) \<Longrightarrow> digit_words (a @ b) = digit_words a @ digit_words b"
  by (simp add: digit_words_def maximal_runs_append)

lemma digit_words_append_left:
  assumes "a = [] \<or> \<not> is_word (last a)"
  shows "digit_words (a @ b) = digit_words a @ digit_words b"
proof (cases a rule: rev_cases)
  case Nil
  then show ?thesis by (simp add: digit_words_Nil)
next
  case (snoc a' x)
  with assms have x: "\<not> is_word x" by simp
  have "digit_words (a @ b) = digit_words (a' @ (x # b))"
    by (simp add: snoc)
  also have "\<dots> = digit_words a' @ digit_words (x # b)"
    using x by (simp add: digit_words_append)
  also have "\<dots> = digit_words a' @ digit_words b"
    using x by (simp add: digit_words_not_word)
  finally have l: "digit_words (a @ b) = digit_words a' @ digit_words b" .
  have "digit_words a = digit_words a' @ digit_words [x]"
    unfolding snoc using x by (simp add: digit_words_append)
  also have "\<dots> = digit_words a'"
    using x by (simp add: digit_words_not_word digit_words_Nil)
  finally show ?thesis using l by simp
qed

lemma example_harvest:
  "findall_digits ''order 2077 dated 06/02/2025 ref 164082''
     = [''2077'', ''06'', ''02'', ''2025'', ''164082'']"
  by (simp add: regex_eval)

text \<open>
  Claim C6, as the spec states it, harvests all maximal digit runs. In \<^verbatim>\<open>A123456 654321\<close>
  the first maximal digit run of length 6 is 123456, which follows a letter; the
  pattern's \<^verbatim>\<open>\b\<close> does not match there and the extractor returns 654321. A text that
  contains the order line behind another 6-digit number yields that number, not 164082,
  and a text in which a letter follows the order line directly yields no result.
\<close>

theorem first_match_skips_runs_inside_words:
  "maximal_digit_runs ''A123456 654321'' = [''123456'', ''654321'']
   \<and> find (\<lambda>r. length r = 6) (maximal_digit_runs ''A123456 654321'') = Some ''123456''
   \<and> extract_tsp_id_smart ''A123456 654321'' = Some ''654321''
   \<and> extract_tsp_id_smart ''123456 order 2077 dated 06/02/2025 ref 164082'' = Some ''123456''
   \<and> extract_tsp_id_smart ''order 2077 dated 06/02/2025 ref 164082A'' = None"
proof -
  have a: "maximal_digit_runs ''A123456 654321'' = [''123456'', ''654321'']"
    by (simp add: maximal_digit_runs_def maximal_runs_def is_digit_def)
  have b: "findall_digits ''A123456 654321'' = [''654321'']"
    by (simp add: regex_eval)
  have c: "findall_digits ''123456 order 2077 dated 06/02/2025 ref 164082''
     = [''123456'', ''2077'', ''06'', ''02'', ''2025'', ''164082'']"
    by (simp add: regex_eval)
  have d: "findall_digits ''order 2077 dated 06/02/2025 ref 164082A''
     = [''2077'', ''06'', ''02'', ''2025'']"
    by (simp add: regex_eval)
  show ?thesis
    by (simp add: a extract_tsp_id_smart_def b c d str_isdigit_def is_digit_def)
qed

text \<open>
  Claim C6, amended. The First-Match Heuristic Extractor harvests, in order of
  appearance, the digit runs of the flat page text that stand as whole words (maximal
  runs of word characters, that is letters, digits and underscores, that consist of
  digits only) and returns the first of them whose length is exactly 6, or no result
  when none exists; in particular, on any text that contains
  \<^verbatim>\<open>order 2077 dated 06/02/2025 ref 164082\<close> with no 6-digit whole-word run before it
  and no word character directly behind it, the result is 164082.
\<close>

theorem first_match_returns_first_six_digit_word:
  "extract_tsp_id_smart text = find (\<lambda>r. length r = 6) (digit_words text)
   \<and> ((post = [] \<or> \<not> is_word (hd post))
        \<and> find (\<lambda>r. length r = 6) (digit_words (pre @ ''order'')) = None
      \<longrightarrow> extract_tsp_id_smart (pre @ ''order 2077 dated 06/02/2025 ref 164082'' @ post)
            = Some ''164082'')"
proof (intro conjI impI)
  show "extract_tsp_id_smart text = find (\<lambda>r. length r = 6) (digit_words text)"
    by (rule extract_tsp_id_smart_digit_words)
next
  let ?rest = "'' 2077 dated 06/02/2025 ref 164082''"
  assume a: "(post = [] \<or> \<not> is_word (hd post))
        \<and> find (\<lambda>r. length r = 6) (digit_words (pre @ ''order'')) = None"
  have "findall_digits ?rest = [''2077'', ''06'', ''02'', ''2025'', ''164082'']"
    by (simp add: regex_eval)
  then have x: "digit_words ?rest = [''2077'', ''06'', ''02'', ''2025'', ''164082'']"
    by (simp add: findall_digits_digit_words)
  have "\<not> is_word (hd ?rest)"
    by (simp add: is_word_def)
  then have "digit_words ((pre @ ''order'') @ (?rest @ post))
      = digit_words (pre @ ''order'') @ digit_words (?rest @ post)"
    by (intro digit_words_append) simp
  also have "digit_words (?rest @ post) = digit_words ?rest @ digit_words post"
    using a by (intro digit_words_append) simp
  finally have "digit_words (pre @ ''order 2077 dated 06/02/2025 ref 164082'' @ post)
      = digit_words (pre @ ''order'') @ digit_words ?rest @ digit_words post"
    by simp
  then show "extract_tsp_id_smart (pre @ ''order 2077 dated 06/02/2025 ref 164082'' @ post)
      = Some ''164082''"
    using a by (simp add: extract_tsp_id_smart_digit_words find_append_case x)
qed

theorem first_match_returns_first_six_digit_word_witness:
  "('' total'' = [] \<or> \<not> is_word (hd '' total''))
   \<and> find (\<lambda>r. length r = 6) (digit_words (''Re'' @ ''order'')) = None
   \<and> extract_tsp_id_smart (''Re'' @ ''order 2077 dated 06/02/2025 ref 164082'' @ '' total'')
       = Some ''164082''"
proof -
  have a: "'' total'' = [] \<or> \<not> is_word (hd '' total'')"
    by (simp add: is_word_def)
  have "digit_words (''Re'' @ ''order'') = []"
    by (simp add: digit_words_def maximal_runs_def is_word_def is_digit_def)
  then have b: "find (\<lambda>r. length r = 6) (digit_words (''Re'' @ ''order'')) = None"
    by simp
  show ?thesis
    using first_match_returns_first_six_digit_word [of _ "'' total''" "''Re''"] a b
    by blast
qed

section \<open>Shape of the harvested candidates\<close>

text \<open>
  The invariant of the data model: a harvested candidate is a string of 6 to 8 digits, so
  one of the three length bonuses of the selector always applies.
\<close>

lemma findall_6_to_8_digits_shape:
  assumes "n \<in> set (findall_6_to_8_digits t)"
  shows "isdigit n \<and> 6 \<le> length n \<and> length n \<le> 8"
proof -
  from assms have "n \<in> set (digit_words t)" "in_range 6 (Some 8) n"
    by (simp_all add: findall_6_to_8_digits_def findall_from_digit_words is_word_opt_def)
  then show ?thesis
    using digit_words_isdigit [of t] by (auto simp: list_all_iff in_range_def)
qed

lemma harvested_candidate_shape:
  "c \<in> set (candidates_of_span s) \<Longrightarrow>
     isdigit (cand_number c) \<and> 6 \<le> length (cand_number c) \<and> length (cand_number c) \<le> 8"
  using findall_6_to_8_digits_shape [of "cand_number c" "strip (span_text s)"]
  by (auto simp: candidates_of_span_def Let_def)

end
